theory Spec2Isabelle
  imports Main "HOL-Library.Multiset"
begin

section \<open>Kind compatibility\<close>

type_synonym kind = string

text \<open>
  Modelled from the spec: the Kind Registry's \<open>is_compatible\<close> (section 4.1) is not
  among the source files. The spec: "returns true iff the two sets intersect (union-typed
  compatibility -- any shared kind suffices)". A kind set is the list of its kind names;
  the check looks for a producer kind that is also a consumer kind.
\<close>

definition is_compatible :: "kind list \<Rightarrow> kind list \<Rightarrow> bool" where
  "is_compatible producer_kinds consumer_kinds =
     list_ex (\<lambda>k. k \<in> set consumer_kinds) producer_kinds"

section \<open>The mask visualization block\<close>

text \<open>
  \<open>core_steps/visualizations/mask.py\<close>. The arguments that \<open>run\<close> hands to
  \<open>getAnnotator\<close> are optional Python values; \<open>str\<close> is applied to four of them.
  Floats are kept abstract (type \<open>'f\<close>), with their \<open>str\<close> a parameter.
\<close>

datatype 'f pyval = PyNone | PyStr string | PyInt int | PyFloat 'f

datatype py_exception = AttributeError string | TypeError | Raised string

fun digit_char :: "nat \<Rightarrow> char" where
  "digit_char n = ''0123456789'' ! n"

fun str_nat :: "nat \<Rightarrow> string" where
  "str_nat n = (if n < 10 then [digit_char n] else str_nat (n div 10) @ [digit_char (n mod 10)])"

declare str_nat.simps [simp del]

definition str_int :: "int \<Rightarrow> string" where
  "str_int i = (if i < 0 then CHR ''-'' # str_nat (nat (- i)) else str_nat (nat i))"

fun py_str :: "('f \<Rightarrow> string) \<Rightarrow> 'f pyval \<Rightarrow> string" where
  "py_str sf PyNone = ''None''"
| "py_str sf (PyStr s) = s"
| "py_str sf (PyInt i) = str_int i"
| "py_str sf (PyFloat x) = sf x"

text \<open>\<open>sep.join(xs)\<close>\<close>

fun join_str :: "string \<Rightarrow> string list \<Rightarrow> string" where
  "join_str sep [] = []"
| "join_str sep [x] = x"
| "join_str sep (x # y # ys) = x @ sep @ join_str sep (y # ys)"

text \<open>The object \<open>sv.MaskAnnotator(color=..., color_lookup=..., opacity=...)\<close>.\<close>

record ('p, 'cl, 'f) mask_annotator =
  color :: 'p
  color_lookup :: 'cl
  opacity :: "'f pyval"

text \<open>
  What the block uses and the source files do not contain: \<open>getPalette\<close> of the base
  class, the members of \<open>sv.ColorLookup\<close> (for \<open>getattr\<close>), the annotator's
  \<open>annotate\<close>, \<open>str\<close> on floats and the constant \<open>OUTPUT_IMAGE_KEY\<close>. Each is a
  parameter; the calls may raise.
\<close>

record ('p, 'cl, 'f, 'img, 'det) mask_env =
  getPalette :: "'f pyval \<Rightarrow> 'f pyval \<Rightarrow> string list option \<Rightarrow> py_exception + 'p"
  ColorLookup_attr :: "string \<Rightarrow> 'cl option"
  annotate :: "('p, 'cl, 'f) mask_annotator \<Rightarrow> 'img \<Rightarrow> 'det \<Rightarrow> py_exception + 'img"
  str_float :: "'f \<Rightarrow> string"
  OUTPUT_IMAGE_KEY :: string

type_synonym ('p, 'cl, 'f) annotator_cache = "string \<rightharpoonup> ('p, 'cl, 'f) mask_annotator"

definition annotator_key ::
  "('p, 'cl, 'f, 'img, 'det) mask_env \<Rightarrow> 'f pyval \<Rightarrow> 'f pyval \<Rightarrow> 'f pyval \<Rightarrow> 'f pyval \<Rightarrow> string" where
  "annotator_key env color_palette palette_size color_axis opacity' =
     join_str ''_'' (map (py_str (str_float env)) [color_palette, palette_size, color_axis, opacity'])"

text \<open>
  \<open>getAnnotator\<close>: the state is \<open>self.annotatorCache\<close>, returned updated with the
  annotator. On a miss the palette is computed first, then \<open>getattr(sv.ColorLookup,
  color_axis)\<close> (a TypeError when the name is not a string, an AttributeError when
  there is no such member); an exception leaves the cache as it was.
\<close>

definition getAnnotator ::
  "('p, 'cl, 'f, 'img, 'det) mask_env \<Rightarrow> ('p, 'cl, 'f) annotator_cache \<Rightarrow>
   'f pyval \<Rightarrow> 'f pyval \<Rightarrow> string list option \<Rightarrow> 'f pyval \<Rightarrow> 'f pyval \<Rightarrow>
   py_exception + (('p, 'cl, 'f) annotator_cache \<times> ('p, 'cl, 'f) mask_annotator)" where
  "getAnnotator env annotatorCache color_palette palette_size custom_colors color_axis opacity' =
     (let key = annotator_key env color_palette palette_size color_axis opacity' in
      case annotatorCache key of
        Some cached \<Rightarrow> Inr (annotatorCache, cached)
      | None \<Rightarrow>
          (case getPalette env color_palette palette_size custom_colors of
             Inl e \<Rightarrow> Inl e
           | Inr palette \<Rightarrow>
               (case color_axis of
                  PyStr axis \<Rightarrow>
                    (case ColorLookup_attr env axis of
                       None \<Rightarrow> Inl (AttributeError axis)
                     | Some lookup \<Rightarrow>
                         let created = \<lparr>color = palette, color_lookup = lookup, opacity = opacity'\<rparr>
                         in Inr (annotatorCache(key \<mapsto> created), created))
                | _ \<Rightarrow> Inl TypeError)))"

text \<open>\<open>WorkflowImageData\<close>, with the three fields its constructor is given here.\<close>

record ('m, 'img) workflow_image_data =
  parent_metadata :: 'm
  workflow_root_ancestor_metadata :: 'm
  numpy_image :: 'img

text \<open>\<open>numpy_image.copy()\<close>: an array with the same pixels.\<close>

definition copy_array :: "'img \<Rightarrow> 'img" where
  "copy_array a = a"

text \<open>
  \<open>MaskVisualizationBlock.run\<close>: the block's cache is threaded through; the result is
  the dictionary \<open>{OUTPUT_IMAGE_KEY: output}\<close>.
\<close>

definition mask_run ::
  "('p, 'cl, 'f, 'img, 'det) mask_env \<Rightarrow> ('p, 'cl, 'f) annotator_cache \<Rightarrow>
   ('m, 'img) workflow_image_data \<Rightarrow> 'det \<Rightarrow> bool \<Rightarrow>
   'f pyval \<Rightarrow> 'f pyval \<Rightarrow> string list option \<Rightarrow> 'f pyval \<Rightarrow> 'f pyval \<Rightarrow>
   py_exception + (('p, 'cl, 'f) annotator_cache \<times> (string \<rightharpoonup> ('m, 'img) workflow_image_data))" where
  "mask_run env annotatorCache image' predictions copy_image
       color_palette palette_size custom_colors color_axis opacity' =
     (case getAnnotator env annotatorCache color_palette palette_size custom_colors color_axis opacity' of
        Inl e \<Rightarrow> Inl e
      | Inr (cache', annotator) \<Rightarrow>
          (case annotate env annotator
                  (if copy_image then copy_array (numpy_image image') else numpy_image image')
                  predictions of
             Inl e \<Rightarrow> Inl e
           | Inr annotated_image \<Rightarrow>
               let output = \<lparr>parent_metadata = parent_metadata image',
                             workflow_root_ancestor_metadata = workflow_root_ancestor_metadata image',
                             numpy_image = annotated_image\<rparr>
               in Inr (cache', [OUTPUT_IMAGE_KEY env \<mapsto> output])))"

text \<open>A concrete environment for evaluation: three lookup members, a palette made of
  the palette name and the custom colours, an annotator that stamps its palette on the
  scene.\<close>

definition demo_env :: "(string \<times> string list, string, nat, string list, string) mask_env" where
  "demo_env =
     \<lparr>getPalette = (\<lambda>p n cs. case p of PyStr s \<Rightarrow> Inr (s, case cs of None \<Rightarrow> [] | Some c \<Rightarrow> c)
                                 | _ \<Rightarrow> Inl (Raised ''palette'')),
      ColorLookup_attr = (\<lambda>a. if a = ''INDEX'' \<or> a = ''CLASS'' \<or> a = ''TRACK'' then Some a else None),
      annotate = (\<lambda>a scene d. Inr (scene @ [fst (color a)] @ snd (color a) @ [d])),
      str_float = str_nat,
      OUTPUT_IMAGE_KEY = ''image''\<rparr>"

section \<open>The describe-blocks handler\<close>

text \<open>
  \<open>interfaces/http/handlers/workflows.py\<close>. The entities the handler reads and builds
  are declared outside the source files; they are records with the fields the handler
  touches.
\<close>

record selector_definition =
  manifest_type_identifier :: string
  property_name :: string
  property_description :: string
  compatible_element :: string
  is_list_element :: bool
  is_dict_element :: bool

record primitive_definition =
  manifest_type_identifier :: string
  property_name :: string
  property_description :: string
  type_annotation :: string

text \<open>\<open>ExternalWorkflowsBlockSelectorDefinition\<close> and
  \<open>ExternalBlockPropertyPrimitiveDefinition\<close>.\<close>

record external_selector_definition =
  manifest_type_identifier :: string
  property_name :: string
  property_description :: string
  compatible_element :: string
  is_list_element :: bool
  is_dict_element :: bool

record external_primitive_definition =
  manifest_type_identifier :: string
  property_name :: string
  property_description :: string
  type_annotation :: string

record ('b, 'k) blocks_description =
  blocks :: "'b list"
  declared_kinds :: "'k list"

record blocks_connections =
  kinds_connections :: "string \<rightharpoonup> selector_definition list"
  primitives_connections :: "primitive_definition list"

text \<open>\<open>WorkflowsBlocksDescription\<close>, the response.\<close>

record ('b, 'k, 'u, 's) workflows_blocks_description =
  blocks :: "'b list"
  declared_kinds :: "'k list"
  kinds_connections :: "string \<rightharpoonup> external_selector_definition list"
  primitives_connections :: "external_primitive_definition list"
  universal_query_language_description :: 'u
  dynamic_block_definition_schema :: 's

text \<open>
  The functions the handler imports and the source files do not contain. Each is a
  parameter, and each call may raise (an error of type \<open>'e\<close>).
\<close>

record ('d, 'db, 'b, 'k, 'ops, 'opr, 'u, 's, 'e) handler_env =
  compile_dynamic_blocks :: "'d list \<Rightarrow> 'e + 'db list"
  describe_available_blocks :: "'db list \<Rightarrow> 'e + ('b, 'k) blocks_description"
  discover_blocks_connections :: "('b, 'k) blocks_description \<Rightarrow> 'e + blocks_connections"
  prepare_operations_descriptions :: "'e + 'ops"
  prepare_operators_descriptions :: "'e + 'opr"
  from_internal_entities :: "'ops \<Rightarrow> 'opr \<Rightarrow> 'e + 'u"
  DynamicBlockDefinition_schema :: "'e + 's"

definition to_external_selector :: "selector_definition \<Rightarrow> external_selector_definition" where
  "to_external_selector c =
     \<lparr>external_selector_definition.manifest_type_identifier = selector_definition.manifest_type_identifier c,
      property_name = selector_definition.property_name c,
      property_description = selector_definition.property_description c,
      compatible_element = selector_definition.compatible_element c,
      is_list_element = selector_definition.is_list_element c,
      is_dict_element = selector_definition.is_dict_element c\<rparr>"

definition to_external_primitive :: "primitive_definition \<Rightarrow> external_primitive_definition" where
  "to_external_primitive primitives_connection =
     \<lparr>external_primitive_definition.manifest_type_identifier =
        primitive_definition.manifest_type_identifier primitives_connection,
      property_name = primitive_definition.property_name primitives_connection,
      property_description = primitive_definition.property_description primitives_connection,
      type_annotation = primitive_definition.type_annotation primitives_connection\<rparr>"

text \<open>Sequencing of calls that may raise.\<close>

definition and_then :: "'e + 'a \<Rightarrow> ('a \<Rightarrow> 'e + 'b) \<Rightarrow> 'e + 'b" where
  "and_then r f = (case r of Inl e \<Rightarrow> Inl e | Inr x \<Rightarrow> f x)"

definition handle_describe_workflows_blocks_request ::
  "('d, 'db, 'b, 'k, 'ops, 'opr, 'u, 's, 'e) handler_env \<Rightarrow> 'd list option \<Rightarrow>
   'e + ('b, 'k, 'u, 's) workflows_blocks_description" where
  "handle_describe_workflows_blocks_request env dynamic_blocks_definitions =
     (let definitions = (case dynamic_blocks_definitions of None \<Rightarrow> [] | Some ds \<Rightarrow> ds) in
      and_then (compile_dynamic_blocks env definitions) (\<lambda>dynamic_blocks.
      and_then (describe_available_blocks env dynamic_blocks) (\<lambda>blocks_description.
      and_then (discover_blocks_connections env blocks_description) (\<lambda>blocks_connections.
      let kinds_conns = (\<lambda>kind_name.
            map_option (map to_external_selector)
              (blocks_connections.kinds_connections blocks_connections kind_name));
          primitives_conns =
            map to_external_primitive (blocks_connections.primitives_connections blocks_connections)
      in
      and_then (prepare_operations_descriptions env) (\<lambda>uql_operations_descriptions.
      and_then (prepare_operators_descriptions env) (\<lambda>uql_operators_descriptions.
      and_then (from_internal_entities env uql_operations_descriptions uql_operators_descriptions)
        (\<lambda>uql_description.
      and_then (DynamicBlockDefinition_schema env) (\<lambda>schema.
      Inr \<lparr>workflows_blocks_description.blocks = blocks_description.blocks blocks_description,
           declared_kinds = blocks_description.declared_kinds blocks_description,
           kinds_connections = kinds_conns,
           primitives_connections = primitives_conns,
           universal_query_language_description = uql_description,
           dynamic_block_definition_schema = schema\<rparr>))))))))"

text \<open>Concrete collaborators for evaluation: dynamic definitions and blocks are named
  by strings, the catalog is one static block followed by the compiled dynamic blocks,
  and the connections are those of one image parameter and one primitive parameter.\<close>

definition demo_handler_env ::
  "(string, string, string, string, string list, string list, string list \<times> string list,
    string, string) handler_env" where
  "demo_handler_env =
     \<lparr>compile_dynamic_blocks = (\<lambda>ds. if distinct ds then Inr ds else Inl ''duplicate''),
      describe_available_blocks =
        (\<lambda>dyn. Inr \<lparr>blocks_description.blocks = ''MaskVisualization'' # dyn,
                       declared_kinds = [''image'']\<rparr>),
      discover_blocks_connections =
        (\<lambda>bd. Inr \<lparr>blocks_connections.kinds_connections =
                       [''image'' \<mapsto>
                         [\<lparr>selector_definition.manifest_type_identifier = ''MaskVisualization'',
                           selector_definition.property_name = ''image'',
                           selector_definition.property_description = ''The image to annotate'',
                           selector_definition.compatible_element = ''workflow_image'',
                           selector_definition.is_list_element = False,
                           selector_definition.is_dict_element = False\<rparr>]],
                     blocks_connections.primitives_connections =
                       [\<lparr>primitive_definition.manifest_type_identifier = ''MaskVisualization'',
                         primitive_definition.property_name = ''opacity'',
                         primitive_definition.property_description = ''Transparency of the Mask overlay.'',
                         primitive_definition.type_annotation = ''float''\<rparr>]\<rparr>),
      prepare_operations_descriptions = Inr [''StringToLowerCase''],
      prepare_operators_descriptions = Inr [''(String) Equals''],
      from_internal_entities = (\<lambda>ops oprs. Inr (ops, oprs)),
      DynamicBlockDefinition_schema = Inr ''schema''\<rparr>"

section \<open>Blocks, manifests and the registry\<close>

text \<open>
  Modelled from the spec: the Block Descriptor Extractor, the Dynamic Block Compiler and
  the Block Registry (sections 3, 4.2, 4.3 and 4.4) are not among the source files; only
  the handler that calls them is.
\<close>

datatype wf_error =
    DuplicateKindError string
  | UnknownKindError string
  | InvalidManifestError string
  | InvalidDynamicBlockError string
  | DuplicateBlockTypeError string
  | UnknownBlockTypeError string
  | UnresolvedSelectorError string string
  | ForwardReferenceError string
  | IncompatibleKindError string string "kind list" "kind list"
  | CyclicGraphError
  | UnresolvedOutputError string
  | InputValidationError string
  | BatchSizeMismatchError
  | StepExecutionError string string

text \<open>
  Data handed to a block and delivered as a workflow output: a value, all output fields
  of a step, a nested structure, or the "no output" sentinel.
\<close>

datatype 'v data = NoOutput | Item 'v | Fields "(string \<times> 'v) list" | Many "'v data list"

text \<open>A parameter of a manifest: its accepted kind set (\<open>None\<close> for an untyped
  parameter, which accepts any kind) and whether it may be given a selector.\<close>

record parameter_spec =
  accepted_kinds :: "kind list option"
  selector_capable :: bool

record block_manifest =
  manifest_type_identifier :: string
  manifest_parameters :: "(string \<times> parameter_spec) list"
  manifest_outputs :: "(string \<times> kind list) list"

text \<open>The block contract (section 6): a manifest, \<open>run\<close> from resolved parameters to
  the output fields or to a failure with its cause, the declaration of the block as
  scalar-only or batch-capable, and the error-tolerance policy. A scalar-only block is
  run on the resolved parameters of one batch element. A batch-capable block is run
  once on the resolved parameters of a whole batch, and answers with one result, the
  output fields or a failure, for every element of that batch.\<close>

datatype 'v block_run =
    ScalarOnly "(string \<times> 'v data) list \<Rightarrow> string + (string \<times> 'v) list"
  | BatchCapable "(string \<times> 'v data) list list \<Rightarrow> (string + (string \<times> 'v) list) list"

record 'v block =
  manifest :: block_manifest
  run_block :: "'v block_run"
  error_tolerant :: bool

definition block_type :: "'v block \<Rightarrow> string" where
  "block_type b = block_manifest.manifest_type_identifier (manifest b)"

text \<open>Runs \<open>f\<close> over a list and stops at the first failure.\<close>

fun collect :: "('a \<Rightarrow> 'e + 'b) \<Rightarrow> 'a list \<Rightarrow> 'e + 'b list" where
  "collect f [] = Inr []"
| "collect f (x # xs) =
     (case f x of
        Inl e \<Rightarrow> Inl e
      | Inr y \<Rightarrow> (case collect f xs of Inl e \<Rightarrow> Inl e | Inr ys \<Rightarrow> Inr (y # ys)))"












subsection \<open>Concrete blocks for evaluation\<close>

text \<open>The two block types of the Florence-2 grounded workflows of
  \<open>test_workflow_florence2.py\<close>, with values that are strings: a batch-capable
  detection model and a scalar-only grounded model. Then a dynamic definition whose
  body is the list of output fields it yields.\<close>

definition demo_registry :: "kind list" where
  "demo_registry = [''image'', ''object_detection_prediction'', ''language_model_output'', ''string'']"

definition detect :: "(string \<times> string data) list \<Rightarrow> string + (string \<times> string) list" where
  "detect ps =
     (case map_of ps ''images'' of
        Some (Item i) \<Rightarrow> if i = ''blank'' then Inl ''nothing to detect''
                         else Inr [(''predictions'', ''boxes of '' @ i)]
      | _ \<Rightarrow> Inl ''no image'')"

definition ground :: "(string \<times> string data) list \<Rightarrow> string + (string \<times> string) list" where
  "ground ps =
     (case map_of ps ''grounding_detection'' of
        Some (Item g) \<Rightarrow> Inr [(''raw_output'', ''dog in '' @ g), (''classes'', ''dog'')]
      | _ \<Rightarrow> Inl ''no grounding'')"

definition detection_block :: "string block" where
  "detection_block =
     \<lparr>manifest =
        \<lparr>manifest_type_identifier = ''roboflow_core/roboflow_object_detection_model@v1'',
          manifest_parameters =
            [(''images'', \<lparr>accepted_kinds = Some [''image''], selector_capable = True\<rparr>),
             (''model_id'', \<lparr>accepted_kinds = None, selector_capable = False\<rparr>)],
          manifest_outputs = [(''predictions'', [''object_detection_prediction''])]\<rparr>,
      run_block = BatchCapable (map detect),
      error_tolerant = True\<rparr>"

definition florence_block :: "string block" where
  "florence_block =
     \<lparr>manifest =
        \<lparr>manifest_type_identifier = ''roboflow_core/florence_2@v1'',
          manifest_parameters =
            [(''images'', \<lparr>accepted_kinds = Some [''image''], selector_capable = True\<rparr>),
             (''task_type'', \<lparr>accepted_kinds = None, selector_capable = False\<rparr>),
             (''grounding_detection'',
                \<lparr>accepted_kinds = Some [''object_detection_prediction'', ''string''],
                  selector_capable = True\<rparr>),
             (''grounding_selection_mode'', \<lparr>accepted_kinds = None, selector_capable = False\<rparr>)],
          manifest_outputs =
            [(''raw_output'', [''string'', ''language_model_output'']),
             (''classes'', [''string''])]\<rparr>,
      run_block = ScalarOnly ground,
      error_tolerant = False\<rparr>"

definition demo_static :: "string block list" where
  "demo_static = [detection_block, florence_block]"


section \<open>The workflow graph compiler\<close>

text \<open>
  Modelled from the spec: the Workflow Graph Compiler (sections 3 and 4.5) is not among
  the source files; the workflow definitions of \<open>test_workflow_florence2.py\<close> show the
  definition format. A selector is \<open>$inputs.name\<close> or \<open>$steps.name.field\<close>; the field
  \<open>*\<close> selects every output field of the step.
\<close>

datatype selector = InputSelector string | StepSelector string string

datatype 'v parameter_value = Literal 'v | Reference selector | Structure "'v parameter_value list"

record input_spec =
  input_name :: string
  input_kind :: kind

record 'v step_spec =
  step_type :: string
  step_name :: string
  step_parameters :: "(string \<times> 'v parameter_value) list"

record output_spec =
  output_name :: string
  output_selector :: selector
  coordinates_system :: string

record 'v workflow_definition =
  version :: string
  inputs :: "input_spec list"
  steps :: "'v step_spec list"
  outputs :: "output_spec list"

datatype node = InputNode string | StepNode string

record 'v execution_graph =
  graph_inputs :: "input_spec list"
  graph_nodes :: "('v step_spec \<times> 'v block) list"
  graph_edges :: "(node \<times> string) list"
  graph_order :: "string list"
  graph_outputs :: "output_spec list"

fun selectors_of :: "'v parameter_value \<Rightarrow> selector list" where
  "selectors_of (Literal v) = []"
| "selectors_of (Reference sel) = [sel]"
| "selectors_of (Structure vs) = concat (map selectors_of vs)"

definition step_selectors :: "'v step_spec \<Rightarrow> (string \<times> selector) list" where
  "step_selectors s = concat (map (\<lambda>(p, v). map (Pair p) (selectors_of v)) (step_parameters s))"

text \<open>Step 2: the step's type identifier is looked up in the registry.\<close>

definition resolve_block ::
  "('v block, kind) blocks_description \<Rightarrow> 'v step_spec \<Rightarrow> wf_error + ('v step_spec \<times> 'v block)" where
  "resolve_block bd s =
     (case find (\<lambda>b. block_type b = step_type s) (blocks_description.blocks bd) of
        None \<Rightarrow> Inl (UnknownBlockTypeError (step_type s))
      | Some b \<Rightarrow> Inr (s, b))"

definition output_kinds :: "'v block \<Rightarrow> string \<Rightarrow> kind list option" where
  "output_kinds b field =
     (if field = ''*'' then Some (concat (map snd (manifest_outputs (manifest b))))
      else map_of (manifest_outputs (manifest b)) field)"

text \<open>Step 3: a selector resolves to a declared input or to an output field of a step
  declared anywhere in the definition, that is, to the first step of that name whose
  block declares the field; the result is the producer's kinds.\<close>

definition resolve_selector ::
  "input_spec list \<Rightarrow> ('v step_spec \<times> 'v block) list \<Rightarrow> selector \<Rightarrow> wf_error + kind list" where
  "resolve_selector ins nodes sel =
     (case sel of
        InputSelector n \<Rightarrow>
          (case find (\<lambda>i. input_name i = n) ins of
             None \<Rightarrow> Inl (UnresolvedSelectorError n [])
           | Some i \<Rightarrow> Inr [input_kind i])
      | StepSelector n f \<Rightarrow>
          (case find (\<lambda>(s, b). step_name s = n \<and> output_kinds b f \<noteq> None) nodes of
             None \<Rightarrow> Inl (UnresolvedSelectorError n f)
           | Some (s, b) \<Rightarrow>
               (case output_kinds b f of
                  None \<Rightarrow> Inl (UnresolvedSelectorError n f)
                | Some ks \<Rightarrow> Inr ks)))"

definition resolve_parameter ::
  "input_spec list \<Rightarrow> ('v step_spec \<times> 'v block) list \<Rightarrow> string \<times> selector \<Rightarrow>
   wf_error + (string \<times> selector \<times> kind list)" where
  "resolve_parameter ins nodes ps =
     (case ps of (p, sel) \<Rightarrow>
        (case resolve_selector ins nodes sel of
           Inl e \<Rightarrow> Inl e
         | Inr ks \<Rightarrow> Inr (p, sel, ks)))"

definition resolve_step_selectors ::
  "input_spec list \<Rightarrow> ('v step_spec \<times> 'v block) list \<Rightarrow> 'v step_spec \<times> 'v block \<Rightarrow>
   wf_error + ('v step_spec \<times> 'v block \<times> (string \<times> selector \<times> kind list) list)" where
  "resolve_step_selectors ins nodes sb =
     (case collect (resolve_parameter ins nodes) (step_selectors (fst sb)) of
        Inl e \<Rightarrow> Inl e
      | Inr resolved \<Rightarrow> Inr (fst sb, snd sb, resolved))"

text \<open>Step 4: the producer's kinds against the accepted kind set of the consuming
  parameter; an untyped or undeclared parameter accepts any kind.\<close>

definition accepted_by :: "'v block \<Rightarrow> string \<Rightarrow> kind list option" where
  "accepted_by b p =
     (case map_of (manifest_parameters (manifest b)) p of
        None \<Rightarrow> None
      | Some ps \<Rightarrow> accepted_kinds ps)"

definition check_kinds ::
  "'v step_spec \<Rightarrow> 'v block \<Rightarrow> string \<times> selector \<times> kind list \<Rightarrow> wf_error + unit" where
  "check_kinds s b r =
     (case r of (p, sel, ks) \<Rightarrow>
        (case accepted_by b p of
           None \<Rightarrow> Inr ()
         | Some acc \<Rightarrow>
             if is_compatible ks acc then Inr ()
             else Inl (IncompatibleKindError (step_name s) p ks acc)))"

definition check_step_kinds ::
  "'v step_spec \<times> 'v block \<times> (string \<times> selector \<times> kind list) list \<Rightarrow> wf_error + unit list" where
  "check_step_kinds r = (case r of (s, b, resolved) \<Rightarrow> collect (check_kinds s b) resolved)"

text \<open>Steps 2 to 4 over the whole definition, each step completed for every step
  specification before the next one starts.\<close>

definition validate_steps ::
  "'v workflow_definition \<Rightarrow> ('v block, kind) blocks_description \<Rightarrow>
   wf_error + ('v step_spec \<times> 'v block) list" where
  "validate_steps d bd =
     and_then (collect (resolve_block bd) (steps d)) (\<lambda>nodes.
     and_then (collect (resolve_step_selectors (inputs d) nodes) nodes) (\<lambda>resolved.
     and_then (collect check_step_kinds resolved) (\<lambda>checked.
     Inr nodes)))"

text \<open>Step 5: one edge producer \<open>\<rightarrow>\<close> consumer for every selector.\<close>

definition producer_node :: "selector \<Rightarrow> node" where
  "producer_node sel = (case sel of InputSelector n \<Rightarrow> InputNode n | StepSelector n f \<Rightarrow> StepNode n)"

definition step_edges :: "'v step_spec \<Rightarrow> (node \<times> string) list" where
  "step_edges s = map (\<lambda>(p, sel). (producer_node sel, step_name s)) (step_selectors s)"

definition dependency_edges :: "'v step_spec list \<Rightarrow> (node \<times> string) list" where
  "dependency_edges ss = concat (map step_edges ss)"

definition producers :: "(node \<times> string) list \<Rightarrow> string \<Rightarrow> string list" where
  "producers es c =
     concat (map (\<lambda>(n, c'). case n of StepNode p \<Rightarrow> (if c' = c then [p] else []) | InputNode i \<Rightarrow> []) es)"

definition ready :: "(node \<times> string) list \<Rightarrow> string list \<Rightarrow> string \<Rightarrow> bool" where
  "ready es placed s = list_all (\<lambda>p. p \<in> set placed) (producers es s)"

text \<open>The ordering: the first pending step all of whose producers are placed is placed
  next; when steps are pending and none is ready, the graph has a cycle.\<close>

function toposort :: "(node \<times> string) list \<Rightarrow> string list \<Rightarrow> string list \<Rightarrow> string list option" where
  "toposort es placed pending =
     (if pending = [] then Some placed
      else case find (ready es placed) pending of
             None \<Rightarrow> None
           | Some s \<Rightarrow> toposort es (placed @ [s]) (remove1 s pending))"
  by pat_completeness auto
termination
proof (relation "measure (\<lambda>(es, placed, pending). length pending)")
  show "wf (measure (\<lambda>(es, placed, pending). length pending))" by simp
next
  fix es :: "(node \<times> string) list" and placed pending :: "string list" and s
  assume "pending \<noteq> []" and "find (ready es placed) pending = Some s"
  then have "s \<in> set pending" and "0 < length pending"
    by (auto simp: find_Some_iff)
  then show "((es, placed @ [s], remove1 s pending), (es, placed, pending))
      \<in> measure (\<lambda>(es, placed, pending). length pending)"
    by (simp add: length_remove1)
qed

declare toposort.simps [simp del]

text \<open>Step 6: the declared outputs are resolved like step selectors.\<close>

definition resolve_output ::
  "input_spec list \<Rightarrow> ('v step_spec \<times> 'v block) list \<Rightarrow> output_spec \<Rightarrow> wf_error + output_spec" where
  "resolve_output ins nodes out =
     (case resolve_selector ins nodes (output_selector out) of
        Inl e \<Rightarrow> Inl (UnresolvedOutputError (output_name out))
      | Inr ks \<Rightarrow> Inr out)"

definition compile ::
  "'v workflow_definition \<Rightarrow> ('v block, kind) blocks_description \<Rightarrow> wf_error + 'v execution_graph" where
  "compile d bd =
     and_then (validate_steps d bd) (\<lambda>nodes.
     let edges = dependency_edges (steps d) in
     case toposort edges [] (map step_name (steps d)) of
       None \<Rightarrow> Inl CyclicGraphError
     | Some order \<Rightarrow>
         and_then (collect (resolve_output (inputs d) nodes) (outputs d)) (\<lambda>outs.
         Inr \<lparr>graph_inputs = inputs d, graph_nodes = nodes, graph_edges = edges,
              graph_order = order, graph_outputs = outs\<rparr>))"

text \<open>The producer-consumer relation between steps that the selectors induce.\<close>

definition step_dependencies :: "'v step_spec list \<Rightarrow> (string \<times> string) set" where
  "step_dependencies ss = {(p, c). (StepNode p, c) \<in> set (dependency_edges ss)}"

text \<open>
  The referents of a selector, whatever the order of the declarations: for
  \<open>$inputs.n\<close> the declared input \<open>n\<close>, for \<open>$steps.Y.Z\<close> every output field \<open>Z\<close> that
  the block of a step declared as \<open>Y\<close> declares, each with its kinds. A selector
  without referent yields \<open>None\<close>, respectively the empty list.
\<close>

definition input_referent :: "'v workflow_definition \<Rightarrow> string \<Rightarrow> kind list option" where
  "input_referent d n =
     (case find (\<lambda>i. input_name i = n) (inputs d) of None \<Rightarrow> None | Some i \<Rightarrow> Some [input_kind i])"

definition declared_output ::
  "('v block, kind) blocks_description \<Rightarrow> 'v step_spec \<Rightarrow> string \<Rightarrow> kind list option" where
  "declared_output bd s Z =
     (case find (\<lambda>b. block_type b = step_type s) (blocks_description.blocks bd) of
        None \<Rightarrow> None
      | Some b \<Rightarrow> output_kinds b Z)"

definition referents ::
  "'v workflow_definition \<Rightarrow> ('v block, kind) blocks_description \<Rightarrow> string \<Rightarrow> string \<Rightarrow> kind list list" where
  "referents d bd Y Z =
     List.map_filter (\<lambda>s. if step_name s = Y then declared_output bd s Z else None) (steps d)"

text \<open>
  The invariant of an ExecutionGraph (section 3) as a property of the definition it is
  compiled from: the type of every step is in the registry, every selector of a step
  has a referent, the kinds of every referent are compatible with the accepted kinds
  of the consuming parameter, and every output selector has a referent. Acyclicity is
  stated apart, on \<open>step_dependencies\<close>.
\<close>

definition accepts ::
  "('v block, kind) blocks_description \<Rightarrow> 'v step_spec \<Rightarrow> string \<Rightarrow> kind list \<Rightarrow> bool" where
  "accepts bd s p ks =
     (case find (\<lambda>b. block_type b = step_type s) (blocks_description.blocks bd) of
        None \<Rightarrow> False
      | Some b \<Rightarrow> (case accepted_by b p of None \<Rightarrow> True | Some acc \<Rightarrow> is_compatible ks acc))"

definition selector_valid ::
  "'v workflow_definition \<Rightarrow> ('v block, kind) blocks_description \<Rightarrow> 'v step_spec \<Rightarrow> string \<Rightarrow>
   selector \<Rightarrow> bool" where
  "selector_valid d bd s p sel =
     (case sel of
        InputSelector n \<Rightarrow>
          (case input_referent d n of None \<Rightarrow> False | Some ks \<Rightarrow> accepts bd s p ks)
      | StepSelector Y Z \<Rightarrow>
          referents d bd Y Z \<noteq> [] \<and> list_all (accepts bd s p) (referents d bd Y Z))"

definition steps_valid :: "'v workflow_definition \<Rightarrow> ('v block, kind) blocks_description \<Rightarrow> bool" where
  "steps_valid d bd =
     list_all (\<lambda>s. find (\<lambda>b. block_type b = step_type s) (blocks_description.blocks bd) \<noteq> None \<and>
                   list_all (\<lambda>(p, sel). selector_valid d bd s p sel) (step_selectors s))
       (steps d)"

definition outputs_valid :: "'v workflow_definition \<Rightarrow> ('v block, kind) blocks_description \<Rightarrow> bool" where
  "outputs_valid d bd =
     list_all (\<lambda>out. case output_selector out of
                        InputSelector n \<Rightarrow> input_referent d n \<noteq> None
                      | StepSelector Y Z \<Rightarrow> referents d bd Y Z \<noteq> [])
       (outputs d)"

definition well_formed :: "'v workflow_definition \<Rightarrow> ('v block, kind) blocks_description \<Rightarrow> bool" where
  "well_formed d bd \<longleftrightarrow> steps_valid d bd \<and> outputs_valid d bd"

text \<open>The position of the first occurrence of a step in an ordering.\<close>

definition rank :: "string list \<Rightarrow> string \<Rightarrow> nat" where
  "rank ord x = length (takeWhile (\<lambda>y. y \<noteq> x) ord)"

subsection \<open>Concrete workflow definitions for evaluation\<close>

definition demo_description :: "(string block, kind) blocks_description" where
  "demo_description = \<lparr>blocks_description.blocks = demo_static, declared_kinds = demo_registry\<rparr>"

definition detection_step :: "string step_spec" where
  "detection_step =
     \<lparr>step_type = ''roboflow_core/roboflow_object_detection_model@v1'', step_name = ''model_1'',
      step_parameters = [(''images'', Reference (InputSelector ''image'')),
                         (''model_id'', Literal ''yolov8n-640'')]\<rparr>"

definition florence_step :: "string step_spec" where
  "florence_step =
     \<lparr>step_type = ''roboflow_core/florence_2@v1'', step_name = ''model'',
      step_parameters = [(''images'', Reference (InputSelector ''image'')),
                         (''task_type'', Literal ''detection-grounded-instance-segmentation''),
                         (''grounding_detection'', Reference (StepSelector ''model_1'' ''predictions'')),
                         (''grounding_selection_mode'', Literal ''most-confident'')]\<rparr>"

text \<open>\<open>FLORENCE2_GROUNDED_INSTANCE_SEGMENTATION_WORKFLOW_DEFINITION\<close> of
  \<open>test_workflow_florence2.py\<close>: the step \<open>model\<close> is declared before the step
  \<open>model_1\<close> whose predictions it selects.\<close>

definition grounded_segmentation_definition :: "string workflow_definition" where
  "grounded_segmentation_definition =
     \<lparr>version = ''1.0'',
      inputs = [\<lparr>input_name = ''image'', input_kind = ''image''\<rparr>],
      steps = [florence_step, detection_step],
      outputs = [\<lparr>output_name = ''model_predictions'',
                  output_selector = StepSelector ''model'' ''*'',
                  coordinates_system = ''own''\<rparr>]\<rparr>"

text \<open>The graph of the grounded segmentation workflow.\<close>

definition demo_graph :: "string execution_graph" where
  "demo_graph =
     \<lparr>graph_inputs = [\<lparr>input_name = ''image'', input_kind = ''image''\<rparr>],
      graph_nodes = [(florence_step, florence_block), (detection_step, detection_block)],
      graph_edges = [(InputNode ''image'', ''model''), (StepNode ''model_1'', ''model''),
                     (InputNode ''image'', ''model_1'')],
      graph_order = [''model_1'', ''model''],
      graph_outputs = [\<lparr>output_name = ''model_predictions'',
                        output_selector = StepSelector ''model'' ''*'',
                        coordinates_system = ''own''\<rparr>]\<rparr>"

text \<open>The same workflow with a selector of an output field that the detection block
  does not declare.\<close>

definition dangling_definition :: "string workflow_definition" where
  "dangling_definition =
     grounded_segmentation_definition
       \<lparr>steps := [florence_step\<lparr>step_parameters :=
                    [(''grounding_detection'', Reference (StepSelector ''model_1'' ''boxes''))]\<rparr>,
                  detection_step]\<rparr>"

text \<open>Two steps that select each other's output.\<close>

definition ping_step :: "string step_spec" where
  "ping_step =
     \<lparr>step_type = ''roboflow_core/florence_2@v1'', step_name = ''ping'',
      step_parameters = [(''grounding_detection'', Reference (StepSelector ''pong'' ''raw_output''))]\<rparr>"

definition pong_step :: "string step_spec" where
  "pong_step =
     \<lparr>step_type = ''roboflow_core/florence_2@v1'', step_name = ''pong'',
      step_parameters = [(''grounding_detection'', Reference (StepSelector ''ping'' ''raw_output''))]\<rparr>"

definition cyclic_definition :: "string workflow_definition" where
  "cyclic_definition =
     \<lparr>version = ''1.0'',
      inputs = [\<lparr>input_name = ''image'', input_kind = ''image''\<rparr>],
      steps = [ping_step, pong_step],
      outputs = [\<lparr>output_name = ''result'', output_selector = StepSelector ''ping'' ''raw_output'',
                  coordinates_system = ''own''\<rparr>]\<rparr>"
section \<open>The execution engine\<close>

text \<open>
  Modelled from the spec: the Execution Engine (sections 3, 4.6, 5 and 6) is not among
  the source files; \<open>test_workflow_florence2.py\<close> shows \<open>init\<close> and \<open>run\<close> from the
  caller's side. A run proceeds in rounds. In every round the dispatcher admits steps
  that are ready, at most \<open>max_concurrent_steps\<close> of them; the admitted steps run
  on the state of the beginning of the round, each on the whole batch, and their
  outputs are written to the state when they have finished. A run that can admit no
  step although steps are pending never completes: \<open>run\<close> then yields \<open>None\<close>.
\<close>

record ('v, 'p) engine =
  engine_graph :: "'v execution_graph"
  engine_parameters :: 'p
  max_concurrent_steps :: nat


text \<open>A runtime parameter is one value, broadcast to every batch element, or a batch
  of values; every value comes with its kind.\<close>

datatype 'v runtime_parameter = Single kind 'v | Batch "(kind \<times> 'v) list"

definition parameter_kinds :: "'v runtime_parameter \<Rightarrow> kind list" where
  "parameter_kinds p = (case p of Single k v \<Rightarrow> [k] | Batch xs \<Rightarrow> map fst xs)"

text \<open>Step 1 of \<open>run\<close>: every declared input is supplied, with values of its kind.\<close>

definition validate_input ::
  "(string \<times> 'v runtime_parameter) list \<Rightarrow> input_spec \<Rightarrow> wf_error + (string \<times> 'v runtime_parameter)" where
  "validate_input runtime_parameters i =
     (case map_of runtime_parameters (input_name i) of
        None \<Rightarrow> Inl (InputValidationError (input_name i))
      | Some p \<Rightarrow>
          if list_all (\<lambda>k. is_compatible [k] [input_kind i]) (parameter_kinds p)
          then Inr (input_name i, p)
          else Inl (InputValidationError (input_name i)))"

text \<open>Step 2: all batched inputs agree on their length, which is the batch size; with
  no batched input there is one element.\<close>

definition batch_lengths :: "(string \<times> 'v runtime_parameter) list \<Rightarrow> nat list" where
  "batch_lengths ps = concat (map (\<lambda>(n, p). case p of Single k v \<Rightarrow> [] | Batch xs \<Rightarrow> [length xs]) ps)"

definition batch_size :: "(string \<times> 'v runtime_parameter) list \<Rightarrow> wf_error + nat" where
  "batch_size ps =
     (case batch_lengths ps of
        [] \<Rightarrow> Inr 1
      | n # ns \<Rightarrow> if list_all (\<lambda>m. m = n) ns then Inr n else Inl BatchSizeMismatchError)"

definition element_inputs :: "(string \<times> 'v runtime_parameter) list \<Rightarrow> nat \<Rightarrow> (string \<rightharpoonup> 'v)" where
  "element_inputs ps i =
     map_of (map (\<lambda>(n, p). (n, case p of Single k v \<Rightarrow> v | Batch xs \<Rightarrow> snd (xs ! i))) ps)"

definition batch_elements ::
  "'v execution_graph \<Rightarrow> (string \<times> 'v runtime_parameter) list \<Rightarrow> wf_error + (string \<rightharpoonup> 'v) list" where
  "batch_elements g runtime_parameters =
     and_then (collect (validate_input runtime_parameters) (graph_inputs g)) (\<lambda>ps.
     and_then (batch_size ps) (\<lambda>n.
     Inr (map (element_inputs ps) [0..<n])))"

text \<open>The ExecutionState of one batch element: for every completed step its outputs,
  the cause of its failure, or the mark that it was not invoked because it consumes
  the "no output" sentinel. A batch element is its inputs with its state.\<close>

datatype 'v outcome = Produced "(string \<times> 'v) list" | Failed string | Skipped

type_synonym 'v execution_state = "string \<rightharpoonup> 'v outcome"

type_synonym 'v element = "(string \<rightharpoonup> 'v) \<times> 'v execution_state"

text \<open>A selector against the inputs and the state of an element: whatever has no value
  there resolves to the sentinel.\<close>

definition resolve_reference :: "'v element \<Rightarrow> selector \<Rightarrow> 'v data" where
  "resolve_reference el sel =
     (case sel of
        InputSelector n \<Rightarrow> (case fst el n of None \<Rightarrow> NoOutput | Some v \<Rightarrow> Item v)
      | StepSelector s f \<Rightarrow>
          (case snd el s of
             Some (Produced outs) \<Rightarrow>
               if f = ''*'' then Fields outs
               else (case map_of outs f of None \<Rightarrow> NoOutput | Some v \<Rightarrow> Item v)
           | _ \<Rightarrow> NoOutput))"

fun resolve_value :: "'v element \<Rightarrow> 'v parameter_value \<Rightarrow> 'v data" where
  "resolve_value el (Literal v) = Item v"
| "resolve_value el (Reference sel) = resolve_reference el sel"
| "resolve_value el (Structure vs) = Many (map (resolve_value el) vs)"

fun has_no_output :: "'v data \<Rightarrow> bool" where
  "has_no_output NoOutput = True"
| "has_no_output (Item v) = False"
| "has_no_output (Fields fs) = False"
| "has_no_output (Many ds) = list_ex has_no_output ds"

text \<open>The resolved parameters of a step for one element; \<open>None\<close> when a parameter
  carries the sentinel, in which case the step is not invoked for that element and
  propagates the sentinel.\<close>

definition step_arguments :: "'v step_spec \<Rightarrow> 'v element \<Rightarrow> (string \<times> 'v data) list option" where
  "step_arguments s el =
     (let resolved = map (\<lambda>(p, v). (p, resolve_value el v)) (step_parameters s) in
      if list_ex (\<lambda>(p, x). has_no_output x) resolved then None else Some resolved)"

text \<open>Step 3: a batch-capable block receives the whole batch in one invocation, a
  scalar-only block is invoked once per element. A batch-capable block that does not
  answer with one result per element has failed for every element of the batch.\<close>

definition invoke ::
  "'v block \<Rightarrow> (string \<times> 'v data) list list \<Rightarrow> (string + (string \<times> 'v) list) list" where
  "invoke b batch =
     (case run_block b of
        ScalarOnly f \<Rightarrow> map f batch
      | BatchCapable f \<Rightarrow>
          (let results = f batch in
           if length results = length batch then results
           else map (\<lambda>ps. Inl ''batch size'') batch))"

text \<open>The results of an invocation go back to the elements that took part in it, in
  their order; the elements that did not take part are marked.\<close>

fun place ::
  "(string \<times> 'v data) list option list \<Rightarrow> (string + (string \<times> 'v) list) list \<Rightarrow> 'v outcome list" where
  "place [] rs = []"
| "place (None # as) rs = Skipped # place as rs"
| "place (Some a # as) [] = Skipped # place as []"
| "place (Some a # as) (r # rs) =
     (case r of Inl cause \<Rightarrow> Failed cause | Inr outs \<Rightarrow> Produced outs) # place as rs"

definition execute_step ::
  "'v element list \<Rightarrow> 'v step_spec \<times> 'v block \<Rightarrow> string \<times> 'v outcome list" where
  "execute_step els sb =
     (let args = map (step_arguments (fst sb)) els in
      (step_name (fst sb), place args (invoke (snd sb) (List.map_filter (\<lambda>a. a) args))))"

text \<open>A completed step writes one key of the state, its own name, for every element.\<close>

definition complete :: "string \<times> 'v outcome list \<Rightarrow> 'v element list \<Rightarrow> 'v element list" where
  "complete r els = map (\<lambda>(el, out). (fst el, (snd el)(fst r \<mapsto> out))) (zip els (snd r))"

text \<open>Step 5: a failure is fatal to the run, and surfaced with the step name and the
  cause, unless the step's block declares the error-tolerant policy.\<close>

fun first_cause :: "'v outcome list \<Rightarrow> string option" where
  "first_cause [] = None"
| "first_cause (Failed cause # outs) = Some cause"
| "first_cause (Produced fs # outs) = first_cause outs"
| "first_cause (Skipped # outs) = first_cause outs"

definition fatal_failure ::
  "('v step_spec \<times> 'v block) \<times> (string \<times> 'v outcome list) \<Rightarrow> wf_error option" where
  "fatal_failure x =
     (case x of (sb, r) \<Rightarrow>
        if error_tolerant (snd sb) then None
        else map_option (StepExecutionError (fst r)) (first_cause (snd r)))"

definition first_fatal ::
  "('v step_spec \<times> 'v block) list \<Rightarrow> (string \<times> 'v outcome list) list \<Rightarrow> wf_error option" where
  "first_fatal admitted results =
     (case List.map_filter fatal_failure (zip admitted results) of [] \<Rightarrow> None | e # es \<Rightarrow> Some e)"

text \<open>Step 4: the pool has \<open>slots\<close> free workers; the pending steps that are ready take
  them in their order, the others wait.\<close>

fun admit :: "nat \<Rightarrow> ('a \<Rightarrow> bool) \<Rightarrow> 'a list \<Rightarrow> 'a list \<times> 'a list" where
  "admit slots ok [] = ([], [])"
| "admit slots ok (x # xs) =
     (if 0 < slots \<and> ok x
      then (case admit (slots - 1) ok xs of (admitted, waiting) \<Rightarrow> (x # admitted, waiting))
      else (case admit slots ok xs of (admitted, waiting) \<Rightarrow> (admitted, x # waiting)))"

text \<open>The state machine of a run ends in \<open>Completed\<close> or in \<open>Failed\<close>. A step is ready
  when all its producers have completed. The steps admitted in a round are allowed to
  finish; a fatal failure among them ends the run after the round.\<close>

datatype run_status = RunCompleted | RunFailed wf_error

function schedule ::
  "nat \<Rightarrow> (node \<times> string) list \<Rightarrow> string list \<Rightarrow> ('v step_spec \<times> 'v block) list \<Rightarrow>
   'v element list \<Rightarrow> (run_status \<times> 'v element list) option" where
  "schedule pool es completed pending els =
     (if pending = [] then Some (RunCompleted, els)
      else (case admit pool (\<lambda>sb. ready es completed (step_name (fst sb))) pending of
              (admitted, waiting) \<Rightarrow>
                if admitted = [] then None
                else (let results = map (execute_step els) admitted;
                          els' = fold complete results els
                      in case first_fatal admitted results of
                           Some e \<Rightarrow> Some (RunFailed e, els')
                         | None \<Rightarrow> schedule pool es (completed @ map fst results) waiting els')))"
  by pat_completeness auto
termination
proof (relation "measure (\<lambda>(pool, es, completed, pending, els). length pending)")
  show "wf (measure (\<lambda>(pool, es, completed, pending, els). length pending))" by simp
next
  fix pool :: nat and es :: "(node \<times> string) list" and completed :: "string list"
    and pending admitted waiting :: "('v step_spec \<times> 'v block) list"
    and els els' :: "'v element list" and results :: "(string \<times> 'v outcome list) list"
  assume "pending \<noteq> []"
    and split: "(admitted, waiting) =
      admit pool (\<lambda>sb. ready es completed (step_name (fst sb))) pending"
    and "admitted \<noteq> []"
  have "length (fst (admit n ok xs)) + length (snd (admit n ok xs)) = length xs"
    for n and ok :: "'v step_spec \<times> 'v block \<Rightarrow> bool" and xs
    by (induction xs arbitrary: n) (simp_all add: case_prod_unfold)
  from this [of pool "\<lambda>sb. ready es completed (step_name (fst sb))" pending] split [symmetric]
    \<open>admitted \<noteq> []\<close>
  have "length waiting < length pending"
    by (cases admitted) auto
  then show "((pool, es, completed @ map fst results, waiting, els'), (pool, es, completed, pending, els))
      \<in> measure (\<lambda>(pool, es, completed, pending, els). length pending)"
    by simp
qed

declare schedule.simps [simp del]

text \<open>Step 6: the mapping of one element, from output name to the resolved selector.\<close>

definition assemble_outputs :: "'v execution_graph \<Rightarrow> 'v element \<Rightarrow> (string \<times> 'v data) list" where
  "assemble_outputs g el =
     map (\<lambda>out. (output_name out, resolve_reference el (output_selector out))) (graph_outputs g)"

text \<open>The execution of the graph on the batch: every element starts with an empty
  state, every step is pending.\<close>

definition execute ::
  "('v, 'p) engine \<Rightarrow> (string \<rightharpoonup> 'v) list \<Rightarrow> (run_status \<times> 'v element list) option" where
  "execute eng elements =
     schedule (max_concurrent_steps eng) (graph_edges (engine_graph eng)) []
       (graph_nodes (engine_graph eng)) (map (\<lambda>ins. (ins, Map.empty)) elements)"

definition run ::
  "('v, 'p) engine \<Rightarrow> (string \<times> 'v runtime_parameter) list \<Rightarrow>
   (wf_error + (string \<times> 'v data) list list) option" where
  "run eng runtime_parameters =
     (case batch_elements (engine_graph eng) runtime_parameters of
        Inl e \<Rightarrow> Some (Inl e)
      | Inr elements \<Rightarrow>
          (case execute eng elements of
             None \<Rightarrow> None
           | Some (RunFailed e, els) \<Rightarrow> Some (Inl e)
           | Some (RunCompleted, els) \<Rightarrow> Some (Inr (map (assemble_outputs (engine_graph eng)) els))))"

subsection \<open>Concrete engines for evaluation\<close>


section \<open>Properties of the kind check\<close>

lemma is_compatible_iff: "is_compatible p c \<longleftrightarrow> set p \<inter> set c \<noteq> {}"
  by (auto simp: is_compatible_def list_ex_iff)

text \<open>
  C2. \<open>is_compatible\<close> holds exactly when the two kind sets share a kind; it is
  symmetric; a parameter accepting \<open>{X, Y}\<close> accepts a producer of \<open>{Y, Z}\<close> and, when
  \<open>Z\<close> is neither \<open>X\<close> nor \<open>Y\<close>, rejects a producer of \<open>{Z}\<close> alone.
\<close>

theorem is_compatible_intersection:
  "(is_compatible p c \<longleftrightarrow> set p \<inter> set c \<noteq> {}) \<and>
   (is_compatible p c \<longleftrightarrow> is_compatible c p) \<and>
   is_compatible [Y, Z] [X, Y] \<and>
   (Z \<notin> {X, Y} \<longrightarrow> \<not> is_compatible [Z] [X, Y])"
  by (auto simp: is_compatible_iff)

theorem is_compatible_intersection_witness:
  "is_compatible [''image'', ''float''] [''float'', ''string''] \<and>
   is_compatible [''float'', ''string''] [''image'', ''float''] \<and>
   set [''image'', ''float''] \<inter> set [''float'', ''string''] \<noteq> {} \<and>
   ''zone'' \<notin> {''image'', ''float''} \<and>
   \<not> is_compatible [''zone''] [''image'', ''float'']"
  using is_compatible_intersection [of "[''image'', ''float'']" "[''float'', ''string'']"
      "''float''" "''zone''" "''image''"]
  by (simp add: is_compatible_def)

section \<open>Properties of the mask visualization block\<close>

lemma demo_key:
  "annotator_key demo_env (PyStr ''DEFAULT'') (PyInt 10) (PyStr ''CLASS'') (PyFloat 5) =
     ''DEFAULT_10_CLASS_5''"
  by (simp add: annotator_key_def demo_env_def str_int_def str_nat.simps)

text \<open>
  C9. The cache key of \<open>getAnnotator\<close> is made of color_palette, palette_size,
  color_axis and opacity only. Once a call with these four arguments has returned an
  annotator, any later call that agrees on them returns that cached annotator and leaves
  the cache as it is, whatever its custom_colors: in the cache reached by the first call
  and in any cache grown from it (the block only ever adds entries).
\<close>

theorem getAnnotator_cache_hit:
  assumes first: "getAnnotator env cache cp ps cc1 ax op = Inr (cache1, a1)"
    and later: "cache1 \<subseteq>\<^sub>m cache2"
  shows "getAnnotator env cache2 cp ps cc2 ax op = Inr (cache2, a1)"
proof -
  let ?k = "annotator_key env cp ps ax op"
  have "cache1 ?k = Some a1"
    using first
    by (auto simp: getAnnotator_def Let_def split: option.splits sum.splits pyval.splits)
  then have "cache2 ?k = Some a1"
    using later by (auto simp: map_le_def dom_def)
  then show ?thesis
    by (simp add: getAnnotator_def)
qed

theorem getAnnotator_cache_hit_witness:
  "getAnnotator demo_env Map.empty (PyStr ''DEFAULT'') (PyInt 10) (Some [''red''])
      (PyStr ''CLASS'') (PyFloat 5) =
     Inr ([''DEFAULT_10_CLASS_5'' \<mapsto>
            \<lparr>color = (''DEFAULT'', [''red'']), color_lookup = ''CLASS'', opacity = PyFloat 5\<rparr>],
          \<lparr>color = (''DEFAULT'', [''red'']), color_lookup = ''CLASS'', opacity = PyFloat 5\<rparr>) \<and>
   getAnnotator demo_env
      [''DEFAULT_10_CLASS_5'' \<mapsto>
        \<lparr>color = (''DEFAULT'', [''red'']), color_lookup = ''CLASS'', opacity = PyFloat 5\<rparr>]
      (PyStr ''DEFAULT'') (PyInt 10) (Some [''blue'']) (PyStr ''CLASS'') (PyFloat 5) =
     Inr ([''DEFAULT_10_CLASS_5'' \<mapsto>
            \<lparr>color = (''DEFAULT'', [''red'']), color_lookup = ''CLASS'', opacity = PyFloat 5\<rparr>],
          \<lparr>color = (''DEFAULT'', [''red'']), color_lookup = ''CLASS'', opacity = PyFloat 5\<rparr>)"
proof -
  let ?a = "\<lparr>color = (''DEFAULT'', [''red'']), color_lookup = ''CLASS'', opacity = PyFloat (5::nat)\<rparr>"
  have first: "getAnnotator demo_env Map.empty (PyStr ''DEFAULT'') (PyInt 10) (Some [''red''])
      (PyStr ''CLASS'') (PyFloat 5) = Inr ([''DEFAULT_10_CLASS_5'' \<mapsto> ?a], ?a)"
    by (simp add: getAnnotator_def demo_key) (simp add: demo_env_def Let_def)
  show ?thesis
    using first getAnnotator_cache_hit [OF first map_le_refl, of "Some [''blue'']"]
    by simp
qed

text \<open>
  C10. Whenever \<open>run\<close> returns, its result is a mapping with the single key
  \<open>OUTPUT_IMAGE_KEY\<close>; the image stored there has the parent_metadata and the
  workflow_root_ancestor_metadata of the input image, and its numpy_image is what the
  annotator obtained from \<open>getAnnotator\<close> made of the input pixels.
\<close>

theorem mask_run_result:
  assumes "mask_run env cache image' predictions copy_image cp ps cc ax op = Inr (cache', result)"
  shows "dom result = {OUTPUT_IMAGE_KEY env} \<and>
    (\<exists>out ann. result (OUTPUT_IMAGE_KEY env) = Some out \<and>
       parent_metadata out = parent_metadata image' \<and>
       workflow_root_ancestor_metadata out = workflow_root_ancestor_metadata image' \<and>
       getAnnotator env cache cp ps cc ax op = Inr (cache', ann) \<and>
       annotate env ann (numpy_image image') predictions = Inr (numpy_image out))"
  using assms
  by (cases copy_image)
    (auto simp: mask_run_def copy_array_def Let_def split: sum.splits prod.splits if_splits)

theorem mask_run_result_witness:
  "mask_run demo_env Map.empty
      \<lparr>parent_metadata = ''parent'', workflow_root_ancestor_metadata = ''root'',
        numpy_image = [''pixels'']\<rparr>
      ''detections'' True (PyStr ''DEFAULT'') (PyInt 10) (Some [''red'']) (PyStr ''CLASS'') (PyFloat 5) =
     Inr ([''DEFAULT_10_CLASS_5'' \<mapsto>
            \<lparr>color = (''DEFAULT'', [''red'']), color_lookup = ''CLASS'', opacity = PyFloat 5\<rparr>],
          [''image'' \<mapsto>
            \<lparr>parent_metadata = ''parent'', workflow_root_ancestor_metadata = ''root'',
              numpy_image = [''pixels'', ''DEFAULT'', ''red'', ''detections'']\<rparr>]) \<and>
   dom [''image'' \<mapsto>
          \<lparr>parent_metadata = ''parent'', workflow_root_ancestor_metadata = ''root'',
            numpy_image = [''pixels'', ''DEFAULT'', ''red'', ''detections'']\<rparr>] =
     {OUTPUT_IMAGE_KEY demo_env}"
proof -
  have ann: "getAnnotator demo_env Map.empty (PyStr ''DEFAULT'') (PyInt 10) (Some [''red''])
      (PyStr ''CLASS'') (PyFloat 5) =
     Inr ([''DEFAULT_10_CLASS_5'' \<mapsto>
            \<lparr>color = (''DEFAULT'', [''red'']), color_lookup = ''CLASS'', opacity = PyFloat 5\<rparr>],
          \<lparr>color = (''DEFAULT'', [''red'']), color_lookup = ''CLASS'', opacity = PyFloat 5\<rparr>)"
    by (simp add: getAnnotator_def demo_key) (simp add: demo_env_def Let_def)
  have run: "mask_run demo_env Map.empty
      \<lparr>parent_metadata = ''parent'', workflow_root_ancestor_metadata = ''root'',
        numpy_image = [''pixels'']\<rparr>
      ''detections'' True (PyStr ''DEFAULT'') (PyInt 10) (Some [''red'']) (PyStr ''CLASS'') (PyFloat 5) =
     Inr ([''DEFAULT_10_CLASS_5'' \<mapsto>
            \<lparr>color = (''DEFAULT'', [''red'']), color_lookup = ''CLASS'', opacity = PyFloat 5\<rparr>],
          [''image'' \<mapsto>
            \<lparr>parent_metadata = ''parent'', workflow_root_ancestor_metadata = ''root'',
              numpy_image = [''pixels'', ''DEFAULT'', ''red'', ''detections'']\<rparr>])"
    by (simp add: mask_run_def ann copy_array_def) (simp add: demo_env_def)
  show ?thesis
    using run mask_run_result [OF run] by simp
qed

section \<open>Properties of the describe-blocks handler\<close>

lemma and_then_Inr: "and_then r f = Inr y \<longleftrightarrow> (\<exists>x. r = Inr x \<and> f x = Inr y)"
  by (cases r) (auto simp: and_then_def)

lemma to_external_selector_fields:
  "external_selector_definition.manifest_type_identifier (to_external_selector c) =
     selector_definition.manifest_type_identifier c"
  "external_selector_definition.property_name (to_external_selector c) = selector_definition.property_name c"
  "external_selector_definition.property_description (to_external_selector c) =
     selector_definition.property_description c"
  "external_selector_definition.compatible_element (to_external_selector c) =
     selector_definition.compatible_element c"
  "external_selector_definition.is_list_element (to_external_selector c) =
     selector_definition.is_list_element c"
  "external_selector_definition.is_dict_element (to_external_selector c) =
     selector_definition.is_dict_element c"
  by (simp_all add: to_external_selector_def)

lemma to_external_primitive_fields:
  "external_primitive_definition.manifest_type_identifier (to_external_primitive c) =
     primitive_definition.manifest_type_identifier c"
  "external_primitive_definition.property_name (to_external_primitive c) = primitive_definition.property_name c"
  "external_primitive_definition.property_description (to_external_primitive c) =
     primitive_definition.property_description c"
  "external_primitive_definition.type_annotation (to_external_primitive c) =
     primitive_definition.type_annotation c"
  by (simp_all add: to_external_primitive_def)

text \<open>
  C5. An absent list of definitions is handled as the empty list, and whenever the
  describe-blocks query returns, its description holds: the block catalog and the
  declared kinds of the blocks description made from the compiled dynamic blocks; the
  kind-to-connection map, with the same kinds and under each kind the same
  connections in the same order, each with its block identifier, property name,
  property description, compatible element and list and dict flags; the
  primitive-parameter connection list, entry by entry with its block identifier,
  property name, property description and type annotation; the description of the
  expression language made from its operations and operators; and the schema of
  dynamic block definitions.
\<close>

theorem handle_describe_contents:
  "handle_describe_workflows_blocks_request env None =
     handle_describe_workflows_blocks_request env (Some []) \<and>
   (handle_describe_workflows_blocks_request env dynamic_blocks_definitions = Inr r \<longrightarrow>
    (\<exists>dyn bd bc ops oprs.
       compile_dynamic_blocks env (case dynamic_blocks_definitions of None \<Rightarrow> [] | Some ds \<Rightarrow> ds) = Inr dyn \<and>
       describe_available_blocks env dyn = Inr bd \<and>
       discover_blocks_connections env bd = Inr bc \<and>
       workflows_blocks_description.blocks r = blocks_description.blocks bd \<and>
       workflows_blocks_description.declared_kinds r = blocks_description.declared_kinds bd \<and>
       dom (workflows_blocks_description.kinds_connections r) = dom (blocks_connections.kinds_connections bc) \<and>
       (\<forall>k cs. blocks_connections.kinds_connections bc k = Some cs \<longrightarrow>
          (\<exists>es. workflows_blocks_description.kinds_connections r k = Some es \<and>
             length es = length cs \<and>
             (\<forall>i<length cs.
                external_selector_definition.manifest_type_identifier (es ! i) =
                  selector_definition.manifest_type_identifier (cs ! i) \<and>
                external_selector_definition.property_name (es ! i) =
                  selector_definition.property_name (cs ! i) \<and>
                external_selector_definition.property_description (es ! i) =
                  selector_definition.property_description (cs ! i) \<and>
                external_selector_definition.compatible_element (es ! i) =
                  selector_definition.compatible_element (cs ! i) \<and>
                external_selector_definition.is_list_element (es ! i) =
                  selector_definition.is_list_element (cs ! i) \<and>
                external_selector_definition.is_dict_element (es ! i) =
                  selector_definition.is_dict_element (cs ! i)))) \<and>
       length (workflows_blocks_description.primitives_connections r) =
         length (blocks_connections.primitives_connections bc) \<and>
       (\<forall>i<length (blocks_connections.primitives_connections bc).
          external_primitive_definition.manifest_type_identifier
              (workflows_blocks_description.primitives_connections r ! i) =
            primitive_definition.manifest_type_identifier (blocks_connections.primitives_connections bc ! i) \<and>
          external_primitive_definition.property_name
              (workflows_blocks_description.primitives_connections r ! i) =
            primitive_definition.property_name (blocks_connections.primitives_connections bc ! i) \<and>
          external_primitive_definition.property_description
              (workflows_blocks_description.primitives_connections r ! i) =
            primitive_definition.property_description (blocks_connections.primitives_connections bc ! i) \<and>
          external_primitive_definition.type_annotation
              (workflows_blocks_description.primitives_connections r ! i) =
            primitive_definition.type_annotation (blocks_connections.primitives_connections bc ! i)) \<and>
       prepare_operations_descriptions env = Inr ops \<and>
       prepare_operators_descriptions env = Inr oprs \<and>
       from_internal_entities env ops oprs = Inr (universal_query_language_description r) \<and>
       DynamicBlockDefinition_schema env = Inr (dynamic_block_definition_schema r)))"
proof (intro conjI impI)
  show "handle_describe_workflows_blocks_request env None =
     handle_describe_workflows_blocks_request env (Some [])"
    by (simp add: handle_describe_workflows_blocks_request_def)
next
  assume "handle_describe_workflows_blocks_request env dynamic_blocks_definitions = Inr r"
  then obtain dyn bd bc ops oprs uql schema where
    dyn: "compile_dynamic_blocks env (case dynamic_blocks_definitions of None \<Rightarrow> [] | Some ds \<Rightarrow> ds) = Inr dyn"
    and bd: "describe_available_blocks env dyn = Inr bd"
    and bc: "discover_blocks_connections env bd = Inr bc"
    and ops: "prepare_operations_descriptions env = Inr ops"
    and oprs: "prepare_operators_descriptions env = Inr oprs"
    and uql: "from_internal_entities env ops oprs = Inr uql"
    and schema: "DynamicBlockDefinition_schema env = Inr schema"
    and r: "r = \<lparr>workflows_blocks_description.blocks = blocks_description.blocks bd,
           declared_kinds = blocks_description.declared_kinds bd,
           kinds_connections = (\<lambda>kind_name.
             map_option (map to_external_selector) (blocks_connections.kinds_connections bc kind_name)),
           primitives_connections =
             map to_external_primitive (blocks_connections.primitives_connections bc),
           universal_query_language_description = uql,
           dynamic_block_definition_schema = schema\<rparr>"
    by (auto simp: handle_describe_workflows_blocks_request_def Let_def and_then_Inr)
  show "\<exists>dyn bd bc ops oprs.
       compile_dynamic_blocks env (case dynamic_blocks_definitions of None \<Rightarrow> [] | Some ds \<Rightarrow> ds) = Inr dyn \<and>
       describe_available_blocks env dyn = Inr bd \<and>
       discover_blocks_connections env bd = Inr bc \<and>
       workflows_blocks_description.blocks r = blocks_description.blocks bd \<and>
       workflows_blocks_description.declared_kinds r = blocks_description.declared_kinds bd \<and>
       dom (workflows_blocks_description.kinds_connections r) = dom (blocks_connections.kinds_connections bc) \<and>
       (\<forall>k cs. blocks_connections.kinds_connections bc k = Some cs \<longrightarrow>
          (\<exists>es. workflows_blocks_description.kinds_connections r k = Some es \<and>
             length es = length cs \<and>
             (\<forall>i<length cs.
                external_selector_definition.manifest_type_identifier (es ! i) =
                  selector_definition.manifest_type_identifier (cs ! i) \<and>
                external_selector_definition.property_name (es ! i) =
                  selector_definition.property_name (cs ! i) \<and>
                external_selector_definition.property_description (es ! i) =
                  selector_definition.property_description (cs ! i) \<and>
                external_selector_definition.compatible_element (es ! i) =
                  selector_definition.compatible_element (cs ! i) \<and>
                external_selector_definition.is_list_element (es ! i) =
                  selector_definition.is_list_element (cs ! i) \<and>
                external_selector_definition.is_dict_element (es ! i) =
                  selector_definition.is_dict_element (cs ! i)))) \<and>
       length (workflows_blocks_description.primitives_connections r) =
         length (blocks_connections.primitives_connections bc) \<and>
       (\<forall>i<length (blocks_connections.primitives_connections bc).
          external_primitive_definition.manifest_type_identifier
              (workflows_blocks_description.primitives_connections r ! i) =
            primitive_definition.manifest_type_identifier (blocks_connections.primitives_connections bc ! i) \<and>
          external_primitive_definition.property_name
              (workflows_blocks_description.primitives_connections r ! i) =
            primitive_definition.property_name (blocks_connections.primitives_connections bc ! i) \<and>
          external_primitive_definition.property_description
              (workflows_blocks_description.primitives_connections r ! i) =
            primitive_definition.property_description (blocks_connections.primitives_connections bc ! i) \<and>
          external_primitive_definition.type_annotation
              (workflows_blocks_description.primitives_connections r ! i) =
            primitive_definition.type_annotation (blocks_connections.primitives_connections bc ! i)) \<and>
       prepare_operations_descriptions env = Inr ops \<and>
       prepare_operators_descriptions env = Inr oprs \<and>
       from_internal_entities env ops oprs = Inr (universal_query_language_description r) \<and>
       DynamicBlockDefinition_schema env = Inr (dynamic_block_definition_schema r)"
    apply (rule exI [of _ dyn], rule exI [of _ bd], rule exI [of _ bc], rule exI [of _ ops],
        rule exI [of _ oprs])
    apply (simp add: dyn bd bc ops oprs uql schema r dom_def to_external_selector_fields
        to_external_primitive_fields)
    done
qed

lemma demo_handled:
  "handle_describe_workflows_blocks_request demo_handler_env (Some [''dynamic/echo'']) =
     Inr \<lparr>workflows_blocks_description.blocks = [''MaskVisualization'', ''dynamic/echo''],
          declared_kinds = [''image''],
          kinds_connections = (\<lambda>kind_name. map_option (map to_external_selector)
            ([''image'' \<mapsto>
                [\<lparr>selector_definition.manifest_type_identifier = ''MaskVisualization'',
                  selector_definition.property_name = ''image'',
                  selector_definition.property_description = ''The image to annotate'',
                  selector_definition.compatible_element = ''workflow_image'',
                  selector_definition.is_list_element = False,
                  selector_definition.is_dict_element = False\<rparr>]] kind_name)),
          primitives_connections =
            [\<lparr>external_primitive_definition.manifest_type_identifier = ''MaskVisualization'',
              property_name = ''opacity'',
              property_description = ''Transparency of the Mask overlay.'',
              type_annotation = ''float''\<rparr>],
          universal_query_language_description = ([''StringToLowerCase''], [''(String) Equals'']),
          dynamic_block_definition_schema = ''schema''\<rparr>"
  by (simp add: handle_describe_workflows_blocks_request_def demo_handler_env_def and_then_def
      to_external_primitive_def)

theorem handle_describe_contents_witness:
  "handle_describe_workflows_blocks_request demo_handler_env None =
     handle_describe_workflows_blocks_request demo_handler_env (Some []) \<and>
   (\<exists>r. handle_describe_workflows_blocks_request demo_handler_env (Some [''dynamic/echo'']) = Inr r \<and>
      workflows_blocks_description.blocks r = [''MaskVisualization'', ''dynamic/echo''] \<and>
      workflows_blocks_description.declared_kinds r = [''image''] \<and>
      dom (workflows_blocks_description.kinds_connections r) = {''image''} \<and>
      workflows_blocks_description.kinds_connections r ''image'' =
        Some [\<lparr>external_selector_definition.manifest_type_identifier = ''MaskVisualization'',
               external_selector_definition.property_name = ''image'',
               external_selector_definition.property_description = ''The image to annotate'',
               external_selector_definition.compatible_element = ''workflow_image'',
               external_selector_definition.is_list_element = False,
               external_selector_definition.is_dict_element = False\<rparr>] \<and>
      workflows_blocks_description.primitives_connections r =
        [\<lparr>external_primitive_definition.manifest_type_identifier = ''MaskVisualization'',
          property_name = ''opacity'',
          property_description = ''Transparency of the Mask overlay.'',
          type_annotation = ''float''\<rparr>] \<and>
      universal_query_language_description r = ([''StringToLowerCase''], [''(String) Equals'']) \<and>
      dynamic_block_definition_schema r = ''schema'')"
proof -
  let ?r = "\<lparr>workflows_blocks_description.blocks = [''MaskVisualization'', ''dynamic/echo''],
          declared_kinds = [''image''],
          kinds_connections = (\<lambda>kind_name. map_option (map to_external_selector)
            ([''image'' \<mapsto>
                [\<lparr>selector_definition.manifest_type_identifier = ''MaskVisualization'',
                  selector_definition.property_name = ''image'',
                  selector_definition.property_description = ''The image to annotate'',
                  selector_definition.compatible_element = ''workflow_image'',
                  selector_definition.is_list_element = False,
                  selector_definition.is_dict_element = False\<rparr>]] kind_name)),
          primitives_connections =
            [\<lparr>external_primitive_definition.manifest_type_identifier = ''MaskVisualization'',
              property_name = ''opacity'',
              property_description = ''Transparency of the Mask overlay.'',
              type_annotation = ''float''\<rparr>],
          universal_query_language_description = ([''StringToLowerCase''], [''(String) Equals'']),
          dynamic_block_definition_schema = ''schema''\<rparr>"
  have handled: "handle_describe_workflows_blocks_request demo_handler_env (Some [''dynamic/echo'']) = Inr ?r"
    by (rule demo_handled)
  have absent: "handle_describe_workflows_blocks_request demo_handler_env None =
     handle_describe_workflows_blocks_request demo_handler_env (Some [])"
    using handle_describe_contents [of demo_handler_env "Some [''dynamic/echo'']" ?r]
    by (rule conjunct1)
  have "dom (workflows_blocks_description.kinds_connections ?r) = {''image''}"
    by (auto simp: dom_def split: if_splits)
  with handled absent show ?thesis
    by (intro conjI exI [of _ ?r]) (simp_all add: to_external_selector_def)
qed

section \<open>Properties of the registry\<close>


lemma collect_Inl: "collect f xs = Inl e \<Longrightarrow> \<exists>x\<in>set xs. f x = Inl e"
  by (induction xs) (auto split: sum.splits)

lemma collect_total: "(\<And>x. x \<in> set xs \<Longrightarrow> \<exists>y. f x = Inr y) \<Longrightarrow> \<exists>ys. collect f xs = Inr ys"
  by (induction xs) (fastforce split: sum.splits)+

lemma collect_Inr_mem: "collect f xs = Inr ys \<Longrightarrow> y \<in> set ys \<Longrightarrow> \<exists>x\<in>set xs. f x = Inr y"
  by (induction xs arbitrary: ys) (auto split: sum.splits)

lemma collect_Inr_all: "collect f xs = Inr ys \<Longrightarrow> x \<in> set xs \<Longrightarrow> \<exists>y\<in>set ys. f x = Inr y"
  by (induction xs arbitrary: ys) (auto split: sum.splits)

lemma collect_length: "collect f xs = Inr ys \<Longrightarrow> length ys = length xs"
  by (induction xs arbitrary: ys) (auto split: sum.splits)










section \<open>Properties of the workflow graph compiler\<close>

lemma producers_iff: "p \<in> set (producers es c) \<longleftrightarrow> (StepNode p, c) \<in> set es"
  by (induction es) (auto simp: producers_def split: node.splits)

lemma ready_iff: "ready es placed s \<longleftrightarrow> (\<forall>p. (StepNode p, s) \<in> set es \<longrightarrow> p \<in> set placed)"
  by (auto simp: ready_def list_all_iff producers_iff)

lemma toposort_sound:
  "toposort es placed pending = Some ord \<Longrightarrow>
   \<exists>tail. ord = placed @ tail \<and> mset tail = mset pending \<and>
     (\<forall>pre c post p. tail = pre @ c # post \<longrightarrow> (StepNode p, c) \<in> set es \<longrightarrow> p \<in> set placed \<union> set pre)"
proof (induction es placed pending rule: toposort.induct)
  case (1 es placed pending)
  show ?case
  proof (cases "pending = []")
    case True
    with "1.prems" show ?thesis by (simp add: toposort.simps)
  next
    case False
    with "1.prems" obtain s where s: "find (ready es placed) pending = Some s"
      and rec: "toposort es (placed @ [s]) (remove1 s pending) = Some ord"
      by (auto simp: toposort.simps [of es placed pending] split: option.splits)
    from s have s_in: "s \<in> set pending" and s_ready: "ready es placed s"
      by (auto simp: find_Some_iff)
    from "1.IH" [OF False s rec] obtain tail where
      ord: "ord = (placed @ [s]) @ tail" and perm: "mset tail = mset (remove1 s pending)"
      and top: "\<forall>pre c post p. tail = pre @ c # post \<longrightarrow> (StepNode p, c) \<in> set es \<longrightarrow>
                  p \<in> set (placed @ [s]) \<union> set pre"
      by blast
    have "\<forall>pre c post p. s # tail = pre @ c # post \<longrightarrow> (StepNode p, c) \<in> set es \<longrightarrow>
            p \<in> set placed \<union> set pre"
    proof (intro allI impI)
      fix pre c post p
      assume split: "s # tail = pre @ c # post" and edge: "(StepNode p, c) \<in> set es"
      show "p \<in> set placed \<union> set pre"
      proof (cases pre)
        case Nil
        with split have "c = s" by simp
        with s_ready edge show ?thesis by (auto simp: ready_iff)
      next
        case (Cons x pre')
        with split have "x = s" and "tail = pre' @ c # post" by auto
        with top edge have "p \<in> set (placed @ [s]) \<union> set pre'" by blast
        with Cons \<open>x = s\<close> show ?thesis by auto
      qed
    qed
    moreover have "mset (s # tail) = mset pending"
      using perm s_in by simp
    moreover have "ord = placed @ s # tail"
      using ord by simp
    ultimately show ?thesis by blast
  qed
qed

lemma rank_first: "x \<notin> set pre \<Longrightarrow> rank (pre @ x # post) x = length pre"
  by (induction pre) (auto simp: rank_def)

lemma rank_before: "p \<in> set pre \<Longrightarrow> rank (pre @ rest) p < length pre"
  by (induction pre) (auto simp: rank_def)

lemma toposort_edge_rank:
  assumes sorted: "toposort es [] names = Some ord"
    and edge: "(StepNode p, c) \<in> set es" and c: "c \<in> set ord"
  shows "p \<in> set ord \<and> rank ord p < rank ord c"
proof -
  from toposort_sound [OF sorted] have
    top: "\<forall>pre c post p. ord = pre @ c # post \<longrightarrow> (StepNode p, c) \<in> set es \<longrightarrow> p \<in> set pre"
    by auto
  from c obtain pre post where split: "ord = pre @ c # post" and first: "c \<notin> set pre"
    by (auto dest: split_list_first)
  with top edge have p: "p \<in> set pre" by blast
  with split first show ?thesis
    using rank_before [OF p, of "c # post"] rank_first [OF first, of post] by auto
qed

lemma toposort_acyclic:
  assumes sorted: "toposort es [] names = Some ord"
    and consumers: "\<forall>n c. (n, c) \<in> set es \<longrightarrow> c \<in> set names"
  shows "(s, s) \<notin> {(p, c). (StepNode p, c) \<in> set es}\<^sup>+"
proof
  let ?R = "{(p, c). (StepNode p, c) \<in> set es}"
  assume cyc: "(s, s) \<in> ?R\<^sup>+"
  from toposort_sound [OF sorted] have names: "set ord = set names"
    by (auto dest: mset_eq_setD)
  have step: "(a, b) \<in> ?R\<^sup>+ \<Longrightarrow> b \<in> set ord \<longrightarrow> a \<in> set ord \<and> rank ord a < rank ord b" for a b
  proof (induction rule: trancl_induct)
    case (base y)
    then show ?case using toposort_edge_rank [OF sorted] by auto
  next
    case (step y z)
    show ?case
    proof
      assume z: "z \<in> set ord"
      from step.hyps(2) z have "y \<in> set ord \<and> rank ord y < rank ord z"
        using toposort_edge_rank [OF sorted] by auto
      with step.IH show "a \<in> set ord \<and> rank ord a < rank ord z" by auto
    qed
  qed
  from cyc obtain y where "(y, s) \<in> ?R"
    by (auto elim: tranclE)
  with consumers names have "s \<in> set ord" by auto
  with step [OF cyc] show False by simp
qed


lemma ready_exists:
  assumes acyc: "acyclic {(p, c). (StepNode p, c) \<in> set es}"
    and known: "\<forall>p c. (StepNode p, c) \<in> set es \<longrightarrow> c \<in> set pending \<longrightarrow> p \<in> set placed \<union> set pending"
    and nonempty: "pending \<noteq> []"
  shows "\<exists>s\<in>set pending. ready es placed s"
proof -
  let ?R = "{(p, c). (StepNode p, c) \<in> set es}"
  have "?R = (\<lambda>(p, c). (StepNode p, c)) -` set es" by auto
  moreover have "inj (\<lambda>(p :: string, c :: string). (StepNode p, c))"
    by (auto simp: inj_on_def)
  ultimately have "finite ?R"
    by (simp add: finite_vimageI)
  with acyc have wf: "wf ?R"
    by (simp add: finite_acyclic_wf)
  from nonempty obtain x where "x \<in> set pending"
    by (cases pending) auto
  from wfE_min [OF wf this] obtain z where z: "z \<in> set pending"
    and least: "\<And>y. (y, z) \<in> ?R \<Longrightarrow> y \<notin> set pending"
    by blast
  have "ready es placed z"
    unfolding ready_iff using known z least by blast
  with z show ?thesis by blast
qed

lemma toposort_complete:
  assumes "acyclic {(p, c). (StepNode p, c) \<in> set es}"
    and "\<forall>p c. (StepNode p, c) \<in> set es \<longrightarrow> c \<in> set pending \<longrightarrow> p \<in> set placed \<union> set pending"
  shows "\<exists>ord. toposort es placed pending = Some ord"
  using assms
proof (induction es placed pending rule: toposort.induct)
  case (1 es placed pending)
  show ?case
  proof (cases "pending = []")
    case True
    then show ?thesis by (simp add: toposort.simps)
  next
    case False
    from ready_exists [OF "1.prems" False] have "find (ready es placed) pending \<noteq> None"
      by (auto simp: find_None_iff)
    then obtain s where s: "find (ready es placed) pending = Some s" by auto
    have "\<forall>p c. (StepNode p, c) \<in> set es \<longrightarrow> c \<in> set (remove1 s pending) \<longrightarrow>
            p \<in> set (placed @ [s]) \<union> set (remove1 s pending)"
    proof (intro allI impI)
      fix p c
      assume edge: "(StepNode p, c) \<in> set es" and c: "c \<in> set (remove1 s pending)"
      from c have "c \<in> set pending"
        using set_remove1_subset [of s pending] by blast
      with "1.prems"(2) edge have "p \<in> set placed \<union> set pending" by blast
      then show "p \<in> set (placed @ [s]) \<union> set (remove1 s pending)"
        by (cases "p = s") auto
    qed
    from "1.IH" [OF False s "1.prems"(1) this] obtain ord
      where "toposort es (placed @ [s]) (remove1 s pending) = Some ord" by blast
    with s False show ?thesis
      by (simp add: toposort.simps [of es placed pending])
  qed
qed

lemma and_then_Inl: "and_then r f = Inl e \<longleftrightarrow> r = Inl e \<or> (\<exists>x. r = Inr x \<and> f x = Inl e)"
  by (cases r) (auto simp: and_then_def)

lemma resolve_blocks_fst: "collect (resolve_block bd) ss = Inr nodes \<Longrightarrow> map fst nodes = ss"
proof (induction ss arbitrary: nodes)
  case Nil
  then show ?case by simp
next
  case (Cons s ss)
  then show ?case
    by (cases nodes) (auto simp: resolve_block_def split: sum.splits option.splits)
qed

lemma resolve_blocks_set:
  assumes "collect (resolve_block bd) ss = Inr nodes"
  shows "(s, b) \<in> set nodes \<longleftrightarrow>
     s \<in> set ss \<and> find (\<lambda>b. block_type b = step_type s) (blocks_description.blocks bd) = Some b"
proof
  assume "(s, b) \<in> set nodes"
  from collect_Inr_mem [OF assms this] show
    "s \<in> set ss \<and> find (\<lambda>b. block_type b = step_type s) (blocks_description.blocks bd) = Some b"
    by (auto simp: resolve_block_def split: option.splits)
next
  assume "s \<in> set ss \<and> find (\<lambda>b. block_type b = step_type s) (blocks_description.blocks bd) = Some b"
  then have "s \<in> set ss" and "resolve_block bd s = Inr (s, b)"
    by (simp_all add: resolve_block_def)
  with collect_Inr_all [OF assms, of s] show "(s, b) \<in> set nodes" by auto
qed

lemma find_Some_mem: "find P xs = Some x \<Longrightarrow> x \<in> set xs \<and> P x"
  by (induction xs) (auto split: if_splits)

lemma map_filter_mem: "y \<in> set (List.map_filter f xs) \<longleftrightarrow> (\<exists>x\<in>set xs. f x = Some y)"
  by (induction xs) (auto simp: List.map_filter_simps split: option.splits)

lemma referents_iff:
  "ks \<in> set (referents d bd Y Z) \<longleftrightarrow>
   (\<exists>s\<in>set (steps d). step_name s = Y \<and> declared_output bd s Z = Some ks)"
  by (auto simp: referents_def map_filter_mem split: if_splits)

lemma referents_same:
  "set ss = set (steps d) \<Longrightarrow> set (referents (d\<lparr>steps := ss\<rparr>) bd Y Z) = set (referents d bd Y Z)"
  by (auto simp: referents_iff)

lemma resolve_selector_input:
  "resolve_selector (inputs d) nodes (InputSelector n) =
     (case input_referent d n of None \<Rightarrow> Inl (UnresolvedSelectorError n []) | Some ks \<Rightarrow> Inr ks)"
  by (auto simp: resolve_selector_def input_referent_def split: option.splits)

lemma resolve_selector_step:
  fixes d :: "'v workflow_definition"
  assumes nodes: "collect (resolve_block bd) ss = Inr nodes"
    and same: "set ss = set (steps d)"
    and referent: "referents d bd Y Z \<noteq> []"
  shows "\<exists>ks. resolve_selector (inputs d) nodes (StepSelector Y Z) = Inr ks \<and>
     ks \<in> set (referents d bd Y Z)"
proof -
  let ?P = "\<lambda>(s :: 'v step_spec, b :: 'v block). step_name s = Y \<and> output_kinds b Z \<noteq> None"
  from referent obtain ks0 where "ks0 \<in> set (referents d bd Y Z)"
    by (cases "referents d bd Y Z") auto
  then obtain s0 where s0: "s0 \<in> set (steps d)" "step_name s0 = Y"
    and "declared_output bd s0 Z = Some ks0"
    by (auto simp: referents_iff)
  then obtain b0 where
    "find (\<lambda>b. block_type b = step_type s0) (blocks_description.blocks bd) = Some b0"
    and "output_kinds b0 Z = Some ks0"
    by (auto simp: declared_output_def split: option.splits)
  with s0 same have "(s0, b0) \<in> set nodes" and "?P (s0, b0)"
    by (simp_all add: resolve_blocks_set [OF nodes])
  then have "find ?P nodes \<noteq> None"
    unfolding find_None_iff by blast
  then obtain t b where found: "find ?P nodes = Some (t, b)" by auto
  then have tb: "(t, b) \<in> set nodes" and name: "step_name t = Y"
    and "output_kinds b Z \<noteq> None"
    by (auto dest: find_Some_mem)
  then obtain ks where ks: "output_kinds b Z = Some ks" by auto
  from tb have "t \<in> set (steps d)"
    and "find (\<lambda>b. block_type b = step_type t) (blocks_description.blocks bd) = Some b"
    using same by (simp_all add: resolve_blocks_set [OF nodes])
  with ks name have "ks \<in> set (referents d bd Y Z)"
    by (auto simp: referents_iff declared_output_def)
  moreover have "resolve_selector (inputs d) nodes (StepSelector Y Z) = Inr ks"
    using found ks by (simp add: resolve_selector_def)
  ultimately show ?thesis by blast
qed

lemma resolve_selector_unresolved:
  fixes d :: "'v workflow_definition"
  assumes nodes: "collect (resolve_block bd) (steps d) = Inr nodes"
    and failed: "resolve_selector (inputs d) nodes (StepSelector Y Z) = Inl e"
  shows "e = UnresolvedSelectorError Y Z \<and> referents d bd Y Z = []"
proof -
  have "referents d bd Y Z = []"
  proof (rule ccontr)
    assume "referents d bd Y Z \<noteq> []"
    from resolve_selector_step [OF nodes refl this] failed show False by auto
  qed
  moreover from failed have "e = UnresolvedSelectorError Y Z"
    by (auto simp: resolve_selector_def split: option.splits)
  ultimately show ?thesis by simp
qed

lemma resolve_selector_valid:
  fixes d :: "'v workflow_definition"
  assumes nodes: "collect (resolve_block bd) ss = Inr nodes"
    and same: "set ss = set (steps d)"
    and valid: "selector_valid d bd s p sel"
  shows "\<exists>ks. resolve_selector (inputs d) nodes sel = Inr ks \<and> accepts bd s p ks"
proof (cases sel)
  case (InputSelector n)
  with valid show ?thesis
    by (auto simp: selector_valid_def resolve_selector_input split: option.splits)
next
  case (StepSelector Y Z)
  with valid have "referents d bd Y Z \<noteq> []"
    and all: "\<forall>ks\<in>set (referents d bd Y Z). accepts bd s p ks"
    by (simp_all add: selector_valid_def list_all_iff)
  from resolve_selector_step [OF nodes same this(1)] all StepSelector show ?thesis
    by auto
qed

lemma resolve_step_selectors_Inl:
  assumes "resolve_step_selectors ins nodes sb = Inl e"
  shows "\<exists>p sel. (p, sel) \<in> set (step_selectors (fst sb)) \<and> resolve_selector ins nodes sel = Inl e"
proof -
  from assms have "collect (resolve_parameter ins nodes) (step_selectors (fst sb)) = Inl e"
    by (auto simp: resolve_step_selectors_def split: sum.splits)
  from collect_Inl [OF this] obtain x where x: "x \<in> set (step_selectors (fst sb))"
    and failed: "resolve_parameter ins nodes x = Inl e" by blast
  obtain p sel where "x = (p, sel)" by (cases x)
  with x failed have "(p, sel) \<in> set (step_selectors (fst sb))"
    and "resolve_selector ins nodes sel = Inl e"
    by (auto simp: resolve_parameter_def split: sum.splits)
  then show ?thesis by blast
qed

lemma check_step_kinds_Inl:
  "check_step_kinds r = Inl e \<Longrightarrow> \<exists>s p ks acc. e = IncompatibleKindError s p ks acc"
  by (auto simp: check_step_kinds_def check_kinds_def dest!: collect_Inl
      split: prod.splits option.splits if_splits)

lemma validate_steps_unresolved:
  fixes d :: "'v workflow_definition"
  assumes "validate_steps d bd = Inl (UnresolvedSelectorError n f)"
  shows "\<exists>r\<in>set (steps d). \<exists>p.
     ((p, InputSelector n) \<in> set (step_selectors r) \<and> f = [] \<and> input_referent d n = None) \<or>
     ((p, StepSelector n f) \<in> set (step_selectors r) \<and> referents d bd n f = [])"
proof -
  let ?e = "UnresolvedSelectorError n f"
  have no_blocks: "collect (resolve_block bd) (steps d) \<noteq> Inl ?e"
    by (auto dest!: collect_Inl simp: resolve_block_def split: option.splits)
  have no_kinds: "collect check_step_kinds resolved \<noteq> Inl ?e"
    for resolved :: "('v step_spec \<times> 'v block \<times> (string \<times> selector \<times> kind list) list) list"
    by (auto dest!: collect_Inl check_step_kinds_Inl)
  from assms no_blocks no_kinds obtain nodes where
    nodes: "collect (resolve_block bd) (steps d) = Inr nodes"
    and failed: "collect (resolve_step_selectors (inputs d) nodes) nodes = Inl ?e"
    by (auto simp: validate_steps_def and_then_Inl)
  from collect_Inl [OF failed] obtain sb where sb: "sb \<in> set nodes"
    and "resolve_step_selectors (inputs d) nodes sb = Inl ?e" by blast
  from resolve_step_selectors_Inl [OF this(2)] obtain p sel where
    sel: "(p, sel) \<in> set (step_selectors (fst sb))"
    and unresolved: "resolve_selector (inputs d) nodes sel = Inl ?e" by blast
  from sb have "fst sb \<in> set (map fst nodes)" by simp
  then have r: "fst sb \<in> set (steps d)"
    by (simp only: resolve_blocks_fst [OF nodes])
  show ?thesis
  proof (cases sel)
    case (InputSelector m)
    with unresolved have "m = n \<and> f = [] \<and> input_referent d n = None"
      by (auto simp: resolve_selector_input split: option.splits)
    with sel r InputSelector show ?thesis by blast
  next
    case (StepSelector Y Z)
    with unresolved resolve_selector_unresolved [OF nodes, of Y Z ?e]
    have "Y = n \<and> Z = f \<and> referents d bd n f = []"
      by auto
    with sel r StepSelector show ?thesis by blast
  qed
qed

lemma validate_steps_valid:
  fixes d :: "'v workflow_definition"
  assumes valid: "steps_valid d bd" and same: "set ss = set (steps d)"
  shows "\<exists>nodes. validate_steps (d\<lparr>steps := ss\<rparr>) bd = Inr nodes \<and> map fst nodes = ss"
proof -
  have "\<exists>y. resolve_block bd s = Inr y" if "s \<in> set ss" for s
    using valid that same by (auto simp: steps_valid_def list_all_iff resolve_block_def)
  from collect_total [of ss "resolve_block bd", OF this]
  obtain nodes where nodes: "collect (resolve_block bd) ss = Inr nodes" by blast
  have sel_ok: "\<exists>ks. resolve_selector (inputs d) nodes sel = Inr ks \<and> accepts bd s p ks"
    if "(s, b) \<in> set nodes" and "(p, sel) \<in> set (step_selectors s)" for s b p sel
  proof -
    from that(1) have "s \<in> set (steps d)"
      using same by (simp add: resolve_blocks_set [OF nodes])
    with valid that(2) have "selector_valid d bd s p sel"
      by (auto simp: steps_valid_def list_all_iff)
    then show ?thesis by (rule resolve_selector_valid [OF nodes same])
  qed
  have "\<exists>r. resolve_step_selectors (inputs d) nodes sb = Inr r" if sb: "sb \<in> set nodes" for sb
  proof -
    obtain s b where eq: "sb = (s, b)" by (cases sb)
    have "\<exists>y. resolve_parameter (inputs d) nodes x = Inr y" if "x \<in> set (step_selectors s)" for x
    proof -
      obtain p sel where "x = (p, sel)" by (cases x)
      with sel_ok [of s b p sel] sb eq that show ?thesis
        by (auto simp: resolve_parameter_def)
    qed
    from collect_total [of "step_selectors s" "resolve_parameter (inputs d) nodes", OF this]
    show ?thesis by (auto simp: resolve_step_selectors_def eq)
  qed
  from collect_total [of nodes "resolve_step_selectors (inputs d) nodes", OF this]
  obtain resolved where resolved:
    "collect (resolve_step_selectors (inputs d) nodes) nodes = Inr resolved" by blast
  have "\<exists>y. check_step_kinds r = Inr y" if r: "r \<in> set resolved" for r
  proof -
    from collect_Inr_mem [OF resolved r] obtain sb where sb: "sb \<in> set nodes"
      and step: "resolve_step_selectors (inputs d) nodes sb = Inr r" by blast
    obtain s b where eq: "sb = (s, b)" by (cases sb)
    from step obtain rs where rs: "collect (resolve_parameter (inputs d) nodes) (step_selectors s) = Inr rs"
      and r_eq: "r = (s, b, rs)"
      by (auto simp: resolve_step_selectors_def eq split: sum.splits)
    from sb eq have block: "find (\<lambda>b. block_type b = step_type s) (blocks_description.blocks bd) = Some b"
      by (simp add: resolve_blocks_set [OF nodes])
    have "\<exists>y. check_kinds s b x = Inr y" if "x \<in> set rs" for x
    proof -
      from collect_Inr_mem [OF rs that] obtain ps where ps: "ps \<in> set (step_selectors s)"
        and res: "resolve_parameter (inputs d) nodes ps = Inr x" by blast
      obtain p sel where ps_eq: "ps = (p, sel)" by (cases ps)
      from res obtain ks where ks: "resolve_selector (inputs d) nodes sel = Inr ks"
        and x: "x = (p, sel, ks)"
        by (auto simp: resolve_parameter_def ps_eq split: sum.splits)
      from sel_ok [of s b p sel] sb eq ps ps_eq ks have "accepts bd s p ks" by auto
      with block x show ?thesis
        by (auto simp: accepts_def check_kinds_def split: option.splits)
    qed
    from collect_total [of rs "check_kinds s b", OF this]
    show ?thesis by (simp add: check_step_kinds_def r_eq)
  qed
  from collect_total [of resolved check_step_kinds, OF this]
  obtain checked where "collect check_step_kinds resolved = Inr checked" by blast
  with nodes resolved have "validate_steps (d\<lparr>steps := ss\<rparr>) bd = Inr nodes"
    by (simp add: validate_steps_def and_then_def)
  with resolve_blocks_fst [OF nodes] show ?thesis by blast
qed

lemma validate_steps_nodes:
  "validate_steps d bd = Inr nodes \<Longrightarrow> collect (resolve_block bd) (steps d) = Inr nodes"
  by (auto simp: validate_steps_def and_then_def split: sum.splits)

lemma resolve_outputs_valid:
  fixes d :: "'v workflow_definition"
  assumes nodes: "collect (resolve_block bd) ss = Inr nodes"
    and same: "set ss = set (steps d)"
    and valid: "outputs_valid d bd"
  shows "collect (resolve_output (inputs d) nodes) (outputs d) = Inr (outputs d)"
proof -
  have each: "resolve_output (inputs d) nodes out = Inr out" if "out \<in> set (outputs d)" for out
  proof (cases "output_selector out")
    case (InputSelector n)
    with valid that have "input_referent d n \<noteq> None"
      by (auto simp: outputs_valid_def list_all_iff)
    with InputSelector show ?thesis
      by (auto simp: resolve_output_def resolve_selector_input)
  next
    case (StepSelector Y Z)
    with valid that have "referents d bd Y Z \<noteq> []"
      by (auto simp: outputs_valid_def list_all_iff)
    from resolve_selector_step [OF nodes same this] StepSelector show ?thesis
      by (auto simp: resolve_output_def)
  qed
  have "(\<forall>out\<in>set outs. resolve_output (inputs d) nodes out = Inr out) \<Longrightarrow>
      collect (resolve_output (inputs d) nodes) outs = Inr outs" for outs
    by (induction outs) simp_all
  with each show ?thesis by blast
qed

lemma compile_Inl_cases:
  assumes "compile d bd = Inl e"
  shows "validate_steps d bd = Inl e \<or> e = CyclicGraphError \<or> (\<exists>n. e = UnresolvedOutputError n)"
proof -
  from assms have "validate_steps d bd = Inl e \<or> e = CyclicGraphError \<or>
      (\<exists>nodes. validate_steps d bd = Inr nodes \<and>
         collect (resolve_output (inputs d) nodes) (outputs d) = Inl e)"
    by (auto simp: compile_def and_then_Inl Let_def split: option.splits)
  moreover have "\<exists>n. e = UnresolvedOutputError n"
    if "collect (resolve_output (inputs d) nodes) (outputs d) = Inl e" for nodes
  proof -
    from collect_Inl [OF that] obtain out where "resolve_output (inputs d) nodes out = Inl e"
      by blast
    then show ?thesis
      by (cases "resolve_selector (inputs d) nodes (output_selector out)")
        (auto simp: resolve_output_def)
  qed
  ultimately show ?thesis by blast
qed

lemma compile_Inr:
  assumes "compile d bd = Inr g"
  shows "graph_edges g = dependency_edges (steps d) \<and>
     toposort (dependency_edges (steps d)) [] (map step_name (steps d)) = Some (graph_order g) \<and>
     validate_steps d bd = Inr (graph_nodes g) \<and> graph_inputs g = inputs d \<and>
     collect (resolve_output (inputs d) (graph_nodes g)) (outputs d) = Inr (graph_outputs g)"
  using assms
  by (auto simp: compile_def and_then_Inr Let_def split: option.splits)

lemma dependency_edges_consumer:
  "(n, c) \<in> set (dependency_edges ss) \<Longrightarrow> c \<in> set (map step_name ss)"
  by (auto simp: dependency_edges_def step_edges_def)

lemma dependency_edges_set:
  "set ss = set ss' \<Longrightarrow> set (dependency_edges ss) = set (dependency_edges ss')"
  by (simp add: dependency_edges_def)

lemma dependency_edges_selector:
  "(StepNode p, c) \<in> set (dependency_edges ss) \<Longrightarrow>
   \<exists>s\<in>set ss. step_name s = c \<and> (\<exists>q Z. (q, StepSelector p Z) \<in> set (step_selectors s))"
  by (auto simp: dependency_edges_def step_edges_def producer_node_def split: selector.splits) blast

lemma steps_valid_producer:
  fixes d :: "'v workflow_definition"
  assumes valid: "steps_valid d bd" and edge: "(StepNode p, c) \<in> set (dependency_edges (steps d))"
  shows "p \<in> set (map step_name (steps d))"
proof -
  from dependency_edges_selector [OF edge] obtain s q Z where "s \<in> set (steps d)"
    and "(q, StepSelector p Z) \<in> set (step_selectors s)" by blast
  with valid have "selector_valid d bd s q (StepSelector p Z)"
    by (auto simp: steps_valid_def list_all_iff)
  then have "referents d bd p Z \<noteq> []"
    by (simp add: selector_valid_def)
  then obtain ks where "ks \<in> set (referents d bd p Z)"
    by (cases "referents d bd p Z") auto
  then show ?thesis by (auto simp: referents_iff)
qed


lemma compile_well_formed:
  fixes d :: "'v workflow_definition"
  assumes wf: "well_formed d bd" and acyc: "acyclic (step_dependencies (steps d))"
    and perm: "mset ss = mset (steps d)"
  shows "\<exists>nodes ord. compile (d\<lparr>steps := ss\<rparr>) bd =
       Inr \<lparr>graph_inputs = inputs d, graph_nodes = nodes, graph_edges = dependency_edges ss,
            graph_order = ord, graph_outputs = outputs d\<rparr> \<and>
     map fst nodes = ss \<and>
     toposort (dependency_edges ss) [] (map step_name ss) = Some ord"
proof -
  from perm have same: "set ss = set (steps d)" by (rule mset_eq_setD)
  from wf have valid: "steps_valid d bd" and outs: "outputs_valid d bd"
    by (simp_all add: well_formed_def)
  from validate_steps_valid [OF valid same] obtain nodes
    where nodes: "validate_steps (d\<lparr>steps := ss\<rparr>) bd = Inr nodes" and fst: "map fst nodes = ss"
    by blast
  have edges: "set (dependency_edges ss) = set (dependency_edges (steps d))"
    using same by (rule dependency_edges_set)
  have names: "set (map step_name ss) = set (map step_name (steps d))"
    using same by simp
  have "acyclic {(p, c). (StepNode p, c) \<in> set (dependency_edges ss)}"
    using acyc by (simp add: step_dependencies_def edges)
  moreover have "\<forall>p c. (StepNode p, c) \<in> set (dependency_edges ss) \<longrightarrow> c \<in> set (map step_name ss) \<longrightarrow>
      p \<in> set [] \<union> set (map step_name ss)"
    using steps_valid_producer [OF valid] unfolding edges names by auto
  ultimately obtain ord where ord: "toposort (dependency_edges ss) [] (map step_name ss) = Some ord"
    using toposort_complete by blast
  from validate_steps_nodes [OF nodes] have "collect (resolve_block bd) ss = Inr nodes" by simp
  from resolve_outputs_valid [OF this same outs]
  have "collect (resolve_output (inputs d) nodes) (outputs d) = Inr (outputs d)" .
  with nodes ord have "compile (d\<lparr>steps := ss\<rparr>) bd =
       Inr \<lparr>graph_inputs = inputs d, graph_nodes = nodes, graph_edges = dependency_edges ss,
            graph_order = ord, graph_outputs = outputs d\<rparr>"
    by (simp add: compile_def and_then_def)
  with fst ord show ?thesis by blast
qed

text \<open>
  C3. A definition in which every selector has a referent somewhere -- for
  \<open>$steps.Y.Z\<close> a step declared as \<open>Y\<close>, before or after the referring step, whose
  block declares the output \<open>Z\<close> -- and which is otherwise well formed and acyclic,
  compiles in every declaration order of its steps. The graph has the selector-induced
  edges, and its ordering holds exactly the declared steps, every producer before each
  occurrence of its consumer, whatever the declaration order. When compilation fails
  with UnresolvedSelectorError, some step holds a selector that has no referent
  anywhere in the definition.
\<close>

theorem selectors_resolve_anywhere:
  fixes d :: "'v workflow_definition"
  shows
  "(well_formed d bd \<and> acyclic (step_dependencies (steps d)) \<and> mset ss = mset (steps d) \<longrightarrow>
      (\<exists>g. compile (d\<lparr>steps := ss\<rparr>) bd = Inr g \<and>
         map fst (graph_nodes g) = ss \<and>
         set (graph_edges g) = set (dependency_edges (steps d)) \<and>
         mset (graph_order g) = mset (map step_name (steps d)) \<and>
         (\<forall>pre c post p. graph_order g = pre @ c # post \<longrightarrow>
            (StepNode p, c) \<in> set (dependency_edges (steps d)) \<longrightarrow> p \<in> set pre))) \<and>
   (compile d bd = Inl (UnresolvedSelectorError n f) \<longrightarrow>
      (\<exists>r\<in>set (steps d). \<exists>p.
         ((p, InputSelector n) \<in> set (step_selectors r) \<and> f = [] \<and> input_referent d n = None) \<or>
         ((p, StepSelector n f) \<in> set (step_selectors r) \<and> referents d bd n f = [])))"
proof (intro conjI impI)
  assume hyps: "well_formed d bd \<and> acyclic (step_dependencies (steps d)) \<and> mset ss = mset (steps d)"
  then have perm: "mset ss = mset (steps d)" by simp
  from compile_well_formed [of d bd ss] hyps obtain nodes ord where
    g: "compile (d\<lparr>steps := ss\<rparr>) bd =
       Inr \<lparr>graph_inputs = inputs d, graph_nodes = nodes, graph_edges = dependency_edges ss,
            graph_order = ord, graph_outputs = outputs d\<rparr>"
    and fst: "map fst nodes = ss"
    and sorted: "toposort (dependency_edges ss) [] (map step_name ss) = Some ord"
    by blast
  have edges: "set (dependency_edges ss) = set (dependency_edges (steps d))"
    using perm by (intro dependency_edges_set mset_eq_setD)
  from toposort_sound [OF sorted] have "mset ord = mset (map step_name ss)"
    and top: "\<forall>pre c post p. ord = pre @ c # post \<longrightarrow>
        (StepNode p, c) \<in> set (dependency_edges ss) \<longrightarrow> p \<in> set pre"
    by auto
  moreover have "mset (map step_name ss) = mset (map step_name (steps d))"
    using perm by (metis mset_map)
  ultimately have "mset ord = mset (map step_name (steps d))" by simp
  with g fst edges top show "\<exists>g. compile (d\<lparr>steps := ss\<rparr>) bd = Inr g \<and>
         map fst (graph_nodes g) = ss \<and>
         set (graph_edges g) = set (dependency_edges (steps d)) \<and>
         mset (graph_order g) = mset (map step_name (steps d)) \<and>
         (\<forall>pre c post p. graph_order g = pre @ c # post \<longrightarrow>
            (StepNode p, c) \<in> set (dependency_edges (steps d)) \<longrightarrow> p \<in> set pre)"
    by simp
next
  assume "compile d bd = Inl (UnresolvedSelectorError n f)"
  with compile_Inl_cases [of d bd "UnresolvedSelectorError n f"]
  have "validate_steps d bd = Inl (UnresolvedSelectorError n f)" by auto
  then show "\<exists>r\<in>set (steps d). \<exists>p.
         ((p, InputSelector n) \<in> set (step_selectors r) \<and> f = [] \<and> input_referent d n = None) \<or>
         ((p, StepSelector n f) \<in> set (step_selectors r) \<and> referents d bd n f = [])"
    by (rule validate_steps_unresolved)
qed


lemma demo_step_facts:
  "step_name florence_step = ''model''"
  "step_type florence_step = ''roboflow_core/florence_2@v1''"
  "step_selectors florence_step =
     [(''images'', InputSelector ''image''),
      (''grounding_detection'', StepSelector ''model_1'' ''predictions'')]"
  "step_name detection_step = ''model_1''"
  "step_type detection_step = ''roboflow_core/roboflow_object_detection_model@v1''"
  "step_selectors detection_step = [(''images'', InputSelector ''image'')]"
  "step_name ping_step = ''ping''"
  "step_type ping_step = ''roboflow_core/florence_2@v1''"
  "step_selectors ping_step = [(''grounding_detection'', StepSelector ''pong'' ''raw_output'')]"
  "step_name pong_step = ''pong''"
  "step_type pong_step = ''roboflow_core/florence_2@v1''"
  "step_selectors pong_step = [(''grounding_detection'', StepSelector ''ping'' ''raw_output'')]"
  by (simp_all add: florence_step_def detection_step_def ping_step_def pong_step_def step_selectors_def)

lemma demo_block_facts:
  "block_type florence_block = ''roboflow_core/florence_2@v1''"
  "block_type detection_block = ''roboflow_core/roboflow_object_detection_model@v1''"
  "blocks_description.blocks demo_description = [detection_block, florence_block]"
  "output_kinds detection_block ''predictions'' = Some [''object_detection_prediction'']"
  "output_kinds detection_block ''boxes'' = None"
  "output_kinds florence_block ''raw_output'' = Some [''string'', ''language_model_output'']"
  "output_kinds florence_block ''*'' = Some [''string'', ''language_model_output'', ''string'']"
  "accepted_by florence_block ''images'' = Some [''image'']"
  "accepted_by florence_block ''grounding_detection'' = Some [''object_detection_prediction'', ''string'']"
  "accepted_by detection_block ''images'' = Some [''image'']"
  by (simp_all add: florence_block_def detection_block_def block_type_def demo_description_def
      demo_static_def output_kinds_def accepted_by_def)

lemma demo_definition_facts:
  "steps grounded_segmentation_definition = [florence_step, detection_step]"
  "inputs grounded_segmentation_definition = [\<lparr>input_name = ''image'', input_kind = ''image''\<rparr>]"
  "outputs grounded_segmentation_definition =
     [\<lparr>output_name = ''model_predictions'', output_selector = StepSelector ''model'' ''*'',
       coordinates_system = ''own''\<rparr>]"
  "inputs cyclic_definition = [\<lparr>input_name = ''image'', input_kind = ''image''\<rparr>]"
  "steps cyclic_definition = [ping_step, pong_step]"
  by (simp_all add: grounded_segmentation_definition_def cyclic_definition_def)

lemmas demo_facts = demo_step_facts demo_block_facts demo_definition_facts

lemmas compile_defs = validate_steps_def and_then_def resolve_block_def resolve_step_selectors_def
  resolve_parameter_def resolve_selector_def check_step_kinds_def check_kinds_def is_compatible_def
  dependency_edges_def step_edges_def producer_node_def ready_def producers_def resolve_output_def
  toposort.simps

lemmas valid_defs = well_formed_def steps_valid_def outputs_valid_def selector_valid_def
  accepts_def referents_def declared_output_def input_referent_def is_compatible_def
  List.map_filter_simps

lemma demo_validated:
  "validate_steps grounded_segmentation_definition demo_description =
     Inr [(florence_step, florence_block), (detection_step, detection_block)]"
  by (simp add: compile_defs demo_facts)

lemma demo_compiled:
  "compile grounded_segmentation_definition demo_description = Inr demo_graph"
  by (simp add: compile_def compile_defs demo_facts demo_graph_def)

lemma demo_swapped:
  "compile (grounded_segmentation_definition\<lparr>steps := [detection_step, florence_step]\<rparr>)
     demo_description =
   Inr (demo_graph\<lparr>graph_nodes := [(detection_step, detection_block), (florence_step, florence_block)],
                   graph_edges := [(InputNode ''image'', ''model_1''), (InputNode ''image'', ''model''),
                                   (StepNode ''model_1'', ''model'')]\<rparr>)"
  by (simp add: compile_def compile_defs demo_facts demo_graph_def)

lemma demo_well_formed: "well_formed grounded_segmentation_definition demo_description"
  by (simp add: valid_defs demo_facts)

lemma demo_acyclic: "acyclic (step_dependencies (steps grounded_segmentation_definition))"
proof -
  from demo_compiled have "toposort (dependency_edges (steps grounded_segmentation_definition)) []
      (map step_name (steps grounded_segmentation_definition)) = Some (graph_order demo_graph)"
    by (simp add: compile_Inr)
  from toposort_acyclic [OF this] dependency_edges_consumer show ?thesis
    unfolding acyclic_def step_dependencies_def by blast
qed

lemma dangling_facts:
  "referents dangling_definition demo_description ''model_1'' ''boxes'' = []"
  "compile dangling_definition demo_description = Inl (UnresolvedSelectorError ''model_1'' ''boxes'')"
  by (simp_all add: valid_defs dangling_definition_def compile_def compile_defs demo_facts
      grounded_segmentation_definition_def florence_step_def step_selectors_def)

text \<open>The definition of \<open>test_workflow_florence2.py\<close>, whose first step selects the
  predictions of the second, in both declaration orders; and the definition with the
  dangling selector.\<close>

theorem selectors_resolve_anywhere_witness:
  "well_formed grounded_segmentation_definition demo_description \<and>
   acyclic (step_dependencies (steps grounded_segmentation_definition)) \<and>
   map step_name (steps grounded_segmentation_definition) = [''model'', ''model_1''] \<and>
   (StepNode ''model_1'', ''model'') \<in> set (dependency_edges (steps grounded_segmentation_definition)) \<and>
   (\<exists>g. compile grounded_segmentation_definition demo_description = Inr g \<and>
      graph_order g = [''model_1'', ''model''] \<and>
      set (graph_edges g) = set (dependency_edges (steps grounded_segmentation_definition))) \<and>
   (\<exists>g. compile (grounded_segmentation_definition\<lparr>steps := [detection_step, florence_step]\<rparr>)
           demo_description = Inr g \<and>
      graph_order g = [''model_1'', ''model''] \<and>
      set (graph_edges g) = set (dependency_edges (steps grounded_segmentation_definition))) \<and>
   compile dangling_definition demo_description = Inl (UnresolvedSelectorError ''model_1'' ''boxes'') \<and>
   referents dangling_definition demo_description ''model_1'' ''boxes'' = []"
proof -
  have perm: "mset [detection_step, florence_step] = mset (steps grounded_segmentation_definition)"
    and same: "grounded_segmentation_definition\<lparr>steps := steps grounded_segmentation_definition\<rparr> =
      grounded_segmentation_definition"
    by (simp_all add: demo_facts)
  from selectors_resolve_anywhere [of grounded_segmentation_definition demo_description
      "steps grounded_segmentation_definition"] demo_well_formed demo_acyclic
  have 1: "\<exists>g. compile grounded_segmentation_definition demo_description = Inr g \<and>
      graph_order g = [''model_1'', ''model''] \<and>
      set (graph_edges g) = set (dependency_edges (steps grounded_segmentation_definition))"
    by (auto simp: same demo_compiled demo_graph_def)
  from selectors_resolve_anywhere [of grounded_segmentation_definition demo_description
      "[detection_step, florence_step]"] demo_well_formed demo_acyclic perm
  have 2: "\<exists>g. compile (grounded_segmentation_definition\<lparr>steps := [detection_step, florence_step]\<rparr>)
           demo_description = Inr g \<and>
      graph_order g = [''model_1'', ''model''] \<and>
      set (graph_edges g) = set (dependency_edges (steps grounded_segmentation_definition))"
    by (auto simp: demo_swapped demo_graph_def)
  have 3: "(StepNode ''model_1'', ''model'') \<in> set (dependency_edges (steps grounded_segmentation_definition))"
    by (simp add: demo_facts dependency_edges_def step_edges_def producer_node_def)
  show ?thesis
    using 1 2 3 demo_well_formed demo_acyclic dangling_facts by (simp add: demo_facts)
qed



section \<open>Properties of the execution engine\<close>

































end
